theory Spec2Isabelle
  imports Main "HOL-Library.Word"
begin

section \<open>Python values\<close>

text \<open>
  A Python \<^verbatim>\<open>str\<close> is a sequence of Unicode code points, a \<^verbatim>\<open>bytes\<close> object a
  sequence of octets. The literals of the source are ASCII; \<open>lit\<close> turns one into a
  \<^verbatim>\<open>str\<close>.
\<close>

type_synonym pystr = "nat list"

definition lit :: "string \<Rightarrow> pystr" where
  "lit s = map of_char s"

text \<open>
  What \<^verbatim>\<open>json.loads\<close> returns: \<^verbatim>\<open>None\<close>, \<^verbatim>\<open>bool\<close>, \<^verbatim>\<open>int\<close> (unbounded),
  \<^verbatim>\<open>float\<close> (the 64 bits of the double), \<^verbatim>\<open>str\<close>, \<^verbatim>\<open>list\<close>, \<^verbatim>\<open>dict\<close>. A dict
  is an association list read with \<open>map_of\<close>; the dicts that Python builds have no
  duplicate key.
\<close>

datatype json =
    JNull
  | JBool bool
  | JInt int
  | JFloat "64 word"
  | JStr pystr
  | JArr "json list"
  | JObj "(pystr \<times> json) list"

text \<open>
  What is handed to \<^verbatim>\<open>json.loads\<close> and what a completion function returns: a
  \<^verbatim>\<open>str\<close>, the \<^verbatim>\<open>bytes\<close> of one line of an HTTP body, or \<^verbatim>\<open>None\<close> (the
  \<^verbatim>\<open>content\<close> of a chat message is optional).
\<close>

datatype pydata = Str pystr | Bytes string | NoneVal

text \<open>
  Exceptions, all of them subclasses of \<^verbatim>\<open>Exception\<close>. \<open>Exception v\<close> is
  \<^verbatim>\<open>Exception(v)\<close> as raised at line 83; \<open>HTTPError\<close> is raised by
  \<^verbatim>\<open>raise_for_status\<close>; \<open>JSONDecodeError\<close> and \<open>OtherError\<close> stand for what a
  library call raises from inside (connection refused, authentication, model failure).
\<close>

datatype exn =
    Exception json
  | TypeError
  | AttributeError
  | KeyError pystr
  | IndexError
  | HTTPError nat
  | JSONDecodeError
  | OtherError nat

text \<open>What \<^verbatim>\<open>sentiment_analyzer\<close> returns: a 2-tuple, or an \<^verbatim>\<open>int\<close> (line 172).\<close>

datatype retval = PyTuple json json | PyInt int

subsection \<open>Operations of the Python runtime that the source uses\<close>

text \<open>\<^verbatim>\<open>k in s\<close> on two strings: \<open>k\<close> occurs in \<open>s\<close> as a substring.\<close>

fun contains :: "pystr \<Rightarrow> pystr \<Rightarrow> bool" where
  "contains k [] = (k = [])"
| "contains k (c # s) = (take (length k) (c # s) = k \<or> contains k s)"

text \<open>\<^verbatim>\<open>k in body\<close> for a string \<open>k\<close>.\<close>

fun py_in :: "pystr \<Rightarrow> json \<Rightarrow> exn + bool" where
  "py_in k (JObj d) = Inr (map_of d k \<noteq> None)"
| "py_in k (JArr xs) = Inr (JStr k \<in> set xs)"
| "py_in k (JStr s) = Inr (contains k s)"
| "py_in k JNull = Inl TypeError"
| "py_in k (JBool b) = Inl TypeError"
| "py_in k (JInt n) = Inl TypeError"
| "py_in k (JFloat w) = Inl TypeError"

text \<open>\<^verbatim>\<open>body[k]\<close> for a string \<open>k\<close>.\<close>

fun getitem :: "json \<Rightarrow> pystr \<Rightarrow> exn + json" where
  "getitem (JObj d) k = (case map_of d k of None \<Rightarrow> Inl (KeyError k) | Some v \<Rightarrow> Inr v)"
| "getitem JNull k = Inl TypeError"
| "getitem (JBool b) k = Inl TypeError"
| "getitem (JInt n) k = Inl TypeError"
| "getitem (JFloat w) k = Inl TypeError"
| "getitem (JStr s) k = Inl TypeError"
| "getitem (JArr xs) k = Inl TypeError"

text \<open>\<^verbatim>\<open>body.get(k, default)\<close>: only a dict has the method.\<close>

fun get :: "json \<Rightarrow> pystr \<Rightarrow> json \<Rightarrow> exn + json" where
  "get (JObj d) k dflt = Inr (case map_of d k of None \<Rightarrow> dflt | Some v \<Rightarrow> v)"
| "get JNull k dflt = Inl AttributeError"
| "get (JBool b) k dflt = Inl AttributeError"
| "get (JInt n) k dflt = Inl AttributeError"
| "get (JFloat w) k dflt = Inl AttributeError"
| "get (JStr s) k dflt = Inl AttributeError"
| "get (JArr xs) k dflt = Inl AttributeError"

text \<open>The truth value of \<^verbatim>\<open>if v:\<close>. A float is false when it is \<open>0.0\<close> or \<open>-0.0\<close>.\<close>

fun truthy :: "json \<Rightarrow> bool" where
  "truthy JNull = False"
| "truthy (JBool b) = b"
| "truthy (JInt n) = (n \<noteq> 0)"
| "truthy (JFloat w) = (w \<noteq> 0 \<and> w \<noteq> 0x8000000000000000)"
| "truthy (JStr s) = (s \<noteq> [])"
| "truthy (JArr xs) = (xs \<noteq> [])"
| "truthy (JObj d) = (d \<noteq> [])"

text \<open>\<^verbatim>\<open>"".join(parts)\<close>: a \<^verbatim>\<open>TypeError\<close> at the first item that is not a \<^verbatim>\<open>str\<close>.\<close>

fun join :: "json list \<Rightarrow> exn + pystr" where
  "join [] = Inr []"
| "join (JStr s # ps) = (case join ps of Inl e \<Rightarrow> Inl e | Inr r \<Rightarrow> Inr (s @ r))"
| "join (JNull # ps) = Inl TypeError"
| "join (JBool b # ps) = Inl TypeError"
| "join (JInt n # ps) = Inl TypeError"
| "join (JFloat w # ps) = Inl TypeError"
| "join (JArr xs # ps) = Inl TypeError"
| "join (JObj d # ps) = Inl TypeError"

text \<open>
  \<^verbatim>\<open>s.strip()\<close> removes the leading and trailing code points that \<^verbatim>\<open>str.isspace\<close>
  accepts.
\<close>

definition isspace :: "nat \<Rightarrow> bool" where
  "isspace c \<longleftrightarrow>
     (0x09 \<le> c \<and> c \<le> 0x0D) \<or> (0x1C \<le> c \<and> c \<le> 0x20) \<or> c = 0x85 \<or> c = 0xA0 \<or>
     c = 0x1680 \<or> (0x2000 \<le> c \<and> c \<le> 0x200A) \<or> c = 0x2028 \<or> c = 0x2029 \<or>
     c = 0x202F \<or> c = 0x205F \<or> c = 0x3000"

definition strip :: "pystr \<Rightarrow> pystr" where
  "strip s = rev (dropWhile isspace (rev (dropWhile isspace s)))"

section \<open>Library calls and their trace\<close>

text \<open>
  The source talks to four libraries: \<^verbatim>\<open>transformers\<close> (tokenizer and model),
  \<^verbatim>\<open>requests\<close>, \<^verbatim>\<open>openai\<close> and \<^verbatim>\<open>json\<close>. Their answers are not in the
  repository, so they are the fields of an environment; every theorem holds for every
  environment. A keyword argument list is written as the call site writes it.
\<close>

record response =
  status_code :: nat
  iter_lines :: "string list"

record message =
  content :: pydata

record choice =
  message :: message

record chat_completion =
  choices :: "choice list"

type_synonym kwargs = "(string \<times> json) list"

record env =
  tokenizer :: "pystr \<Rightarrow> exn + nat list list"
  lang_code_to_id :: "pystr \<Rightarrow> nat option"
  generate :: "nat list list \<Rightarrow> nat \<Rightarrow> nat \<Rightarrow> exn + nat list list"
  batch_decode :: "nat list list \<Rightarrow> exn + pystr list"
  post :: "pystr \<Rightarrow> kwargs \<Rightarrow> exn + response"
  create :: "kwargs \<Rightarrow> exn + chat_completion"
  loads :: "pydata \<Rightarrow> exn + json"

text \<open>One event for each call that leaves the source file, in the order of the calls.\<close>

datatype event =
    Tokenizer pystr
  | Generate "nat list list" nat nat
  | BatchDecode "nat list list"
  | Post pystr kwargs
  | Create kwargs
  | Loads pydata

datatype component = Translator | LocalBackend | RemoteBackend | Decoder

fun component_of :: "event \<Rightarrow> component" where
  "component_of (Tokenizer a) = Translator"
| "component_of (Generate i b m) = Translator"
| "component_of (BatchDecode t) = Translator"
| "component_of (Post u k) = LocalBackend"
| "component_of (Create k) = RemoteBackend"
| "component_of (Loads x) = Decoder"

text \<open>
  A computation yields the calls it made and then either the exception it raised or
  its value. The diagnostic \<^verbatim>\<open>print\<close> calls of the source are left out.
\<close>

type_synonym 'a io = "event list \<times> (exn + 'a)"

definition return_io :: "'a \<Rightarrow> 'a io" where
  "return_io x = ([], Inr x)"

definition raise_io :: "exn \<Rightarrow> 'a io" where
  "raise_io e = ([], Inl e)"

definition lift_io :: "exn + 'a \<Rightarrow> 'a io" where
  "lift_io r = ([], r)"

definition call_io :: "event \<Rightarrow> exn + 'a \<Rightarrow> 'a io" where
  "call_io ev r = ([ev], r)"

definition bind_io :: "'a io \<Rightarrow> ('a \<Rightarrow> 'b io) \<Rightarrow> 'b io" where
  "bind_io m f =
     (case m of
        (t, Inl e) \<Rightarrow> (t, Inl e)
      | (t, Inr x) \<Rightarrow> (case f x of (t', r) \<Rightarrow> (t @ t', r)))"

text \<open>\<^verbatim>\<open>try: m except Exception: h\<close>.\<close>

definition try_except :: "'a io \<Rightarrow> 'a io \<Rightarrow> 'a io" where
  "try_except m h =
     (case m of
        (t, Inl e) \<Rightarrow> (case h of (t', r) \<Rightarrow> (t @ t', r))
      | (t, Inr x) \<Rightarrow> (t, Inr x))"

section \<open>The source\<close>

definition OLLAMA_MODEL :: pystr where
  "OLLAMA_MODEL = lit ''mistral''"

definition OPENAI_MODEL :: pystr where
  "OPENAI_MODEL = lit ''gpt-4-1106-preview''"

subsection \<open>\<^verbatim>\<open>nllb_translate_tr_to_eng\<close> (lines 20 to 36)\<close>

definition nllb_translate_tr_to_eng :: "env \<Rightarrow> pystr \<Rightarrow> pystr io" where
  "nllb_translate_tr_to_eng env article =
     bind_io (call_io (Tokenizer article) (tokenizer env article)) (\<lambda>inputs.
       case lang_code_to_id env (lit ''eng_Latn'') of
         None \<Rightarrow> raise_io (KeyError (lit ''eng_Latn''))
       | Some bos \<Rightarrow>
           bind_io (call_io (Generate inputs bos 30) (generate env inputs bos 30))
             (\<lambda>translated_tokens.
               bind_io (call_io (BatchDecode translated_tokens)
                          (batch_decode env translated_tokens))
                 (\<lambda>decoded. case decoded of
                                [] \<Rightarrow> raise_io IndexError
                              | eng # _ \<Rightarrow> return_io eng)))"

subsection \<open>\<^verbatim>\<open>get_completion_ollama\<close> (lines 61 to 92)\<close>

definition ollama_url :: pystr where
  "ollama_url = lit ''http://localhost:11434/api/generate''"

text \<open>The dict of lines 74 to 76.\<close>

definition ollama_data :: "pystr \<Rightarrow> pystr \<Rightarrow> json" where
  "ollama_data prompt model =
     JObj [(lit ''prompt'', JStr prompt), (lit ''model'', JStr model),
           (lit ''stream'', JBool True)]"

text \<open>\<^verbatim>\<open>response.raise_for_status()\<close>: an error for a 4xx or 5xx status.\<close>

definition raise_for_status :: "response \<Rightarrow> exn + unit" where
  "raise_for_status r =
     (if 400 \<le> status_code r \<and> status_code r < 600 then Inl (HTTPError (status_code r))
      else Inr ())"

text \<open>
  The body of the loop, lines 82 to 89, on the decoded line: it raises, or gives the
  new \<open>parts\<close> and whether the loop breaks.
\<close>

definition loop_body :: "json \<Rightarrow> json list \<Rightarrow> exn + json list \<times> bool" where
  "loop_body body parts =
     (case py_in (lit ''error'') body of
        Inl e \<Rightarrow> Inl e
      | Inr True \<Rightarrow>
          (case getitem body (lit ''error'') of
             Inl e \<Rightarrow> Inl e
           | Inr msg \<Rightarrow> Inl (Exception msg))
      | Inr False \<Rightarrow>
          (case get body (lit ''response'') (JStr []) of
             Inl e \<Rightarrow> Inl e
           | Inr fragment \<Rightarrow>
               (case get body (lit ''done'') JNull of
                  Inl e \<Rightarrow> Inl e
                | Inr done \<Rightarrow> Inr (parts @ [fragment], truthy done))))"

text \<open>The loop of lines 80 to 89: a line is decoded when the loop reaches it.\<close>

fun for_lines :: "env \<Rightarrow> string list \<Rightarrow> json list \<Rightarrow> json list io" where
  "for_lines env [] parts = return_io parts"
| "for_lines env (line # rest) parts =
     bind_io (call_io (Loads (Bytes line)) (loads env (Bytes line))) (\<lambda>body.
       bind_io (lift_io (loop_body body parts)) (\<lambda>(parts', stop).
         if stop then return_io parts' else for_lines env rest parts'))"

definition get_completion_ollama :: "env \<Rightarrow> pystr \<Rightarrow> pystr \<Rightarrow> pystr \<Rightarrow> pydata io" where
  "get_completion_ollama env prompt model url =
     (let data = ollama_data prompt model in
      bind_io (call_io (Post url [(''json'', data)]) (post env url [(''json'', data)]))
        (\<lambda>response.
          bind_io (lift_io (raise_for_status response)) (\<lambda>_.
            bind_io (for_lines env (iter_lines response) []) (\<lambda>parts.
              bind_io (lift_io (join parts)) (\<lambda>joined.
                return_io (Str (strip joined)))))))"

subsection \<open>\<^verbatim>\<open>get_completion_openai\<close> (lines 94 to 116)\<close>

text \<open>The keyword arguments of lines 108 to 114.\<close>

definition openai_kwargs :: "pystr \<Rightarrow> pystr \<Rightarrow> int \<Rightarrow> kwargs" where
  "openai_kwargs prompt model temperature =
     [(''model'', JStr model),
      (''response_format'', JObj [(lit ''type'', JStr (lit ''json_object''))]),
      (''messages'',
         JArr [JObj [(lit ''role'', JStr (lit ''user'')), (lit ''content'', JStr prompt)]]),
      (''temperature'', JInt temperature)]"

definition get_completion_openai :: "env \<Rightarrow> pystr \<Rightarrow> pystr \<Rightarrow> int \<Rightarrow> pydata io" where
  "get_completion_openai env prompt model temperature =
     bind_io (call_io (Create (openai_kwargs prompt model temperature))
                (create env (openai_kwargs prompt model temperature)))
       (\<lambda>response. case choices response of
                      [] \<Rightarrow> raise_io IndexError
                    | c # _ \<Rightarrow> return_io (content (message c)))"

subsection \<open>\<^verbatim>\<open>sentiment_analyzer\<close> (lines 119 to 172)\<close>

text \<open>The f-string of lines 141 to 163; a backslash at the end of a line joins it to the next.\<close>

definition prompt_of :: "pystr \<Rightarrow> pystr" where
  "prompt_of input =
     lit ''\<newline>    Your task is to perform the following actions based on the social media comment, delimited by <>:\<newline>    \<newline>    1 - Generate the sentiment analysis for the comment,         assign a score from 1 to 5, where:\<newline>        1 = Very Negative\<newline>        2 = Negative\<newline>        3 = Neutral\<newline>        4 = Positive\<newline>        5 = Very Positive\<newline>    2 - Generate the offensive language detection for the comment,         assign a score from 1 to 5, where:\<newline>        1 = Not Offensive\<newline>        2 = Slightly Offensive\<newline>        3 = Moderately Offensive\<newline>        4 = Offensive\<newline>        5 = Highly Offensive\<newline>    \<newline>    Format your response as a JSON object with the keys     'sentiment_score' and 'offensive_score'. \<newline>\<newline>    Comment: <''
     @ input @ lit ''>\<newline>    ''"

text \<open>
  Lines 167 to 172, the step that the specification calls \<open>parse\<close>: the \<^verbatim>\<open>try\<close> block
  and its \<^verbatim>\<open>except Exception\<close> handler.
\<close>

definition parse :: "env \<Rightarrow> pydata \<Rightarrow> retval io" where
  "parse env response =
     try_except
       (bind_io (call_io (Loads response) (loads env response)) (\<lambda>res_dict.
          bind_io (lift_io (getitem res_dict (lit ''sentiment_score''))) (\<lambda>s.
            bind_io (lift_io (getitem res_dict (lit ''offensive_score''))) (\<lambda>off.
              return_io (PyTuple s off)))))
       (return_io (PyInt (- 1)))"

definition sentiment_analyzer :: "env \<Rightarrow> pystr \<Rightarrow> bool \<Rightarrow> retval io" where
  "sentiment_analyzer env input is_local =
     bind_io
       (if is_local then
          bind_io (nllb_translate_tr_to_eng env input) (\<lambda>translated.
            return_io (translated, \<lambda>p. get_completion_ollama env p OLLAMA_MODEL ollama_url))
        else return_io (input, \<lambda>p. get_completion_openai env p OPENAI_MODEL 0))
       (\<lambda>(input, get_completion).
          bind_io (get_completion (prompt_of input)) (\<lambda>response. parse env response))"

section \<open>The chunks of the stream, in the words of the specification\<close>

text \<open>
  A decoded line of the stream is a chunk when it is an object. Its error is the value
  under \<^verbatim>\<open>error\<close>, if any; its fragment the value under \<^verbatim>\<open>response\<close>, the empty
  string when there is none; it is done when the value under \<^verbatim>\<open>done\<close> is true.
\<close>

definition is_object :: "json \<Rightarrow> bool" where
  "is_object c = (case c of JObj d \<Rightarrow> True | _ \<Rightarrow> False)"

definition chunk_error :: "json \<Rightarrow> json option" where
  "chunk_error c = (case c of JObj d \<Rightarrow> map_of d (lit ''error'') | _ \<Rightarrow> None)"

definition chunk_fragment :: "json \<Rightarrow> json" where
  "chunk_fragment c =
     (case c of
        JObj d \<Rightarrow> (case map_of d (lit ''response'') of None \<Rightarrow> JStr [] | Some v \<Rightarrow> v)
      | _ \<Rightarrow> JStr [])"

definition chunk_done :: "json \<Rightarrow> bool" where
  "chunk_done c =
     (case c of
        JObj d \<Rightarrow> (case map_of d (lit ''done'') of None \<Rightarrow> False | Some v \<Rightarrow> truthy v)
      | _ \<Rightarrow> False)"

text \<open>
  A stream chunk has a string for its fragment; \<open>chunk_text\<close> is that string.
\<close>

definition chunk_text :: "json \<Rightarrow> pystr" where
  "chunk_text c = (case chunk_fragment c of JStr s \<Rightarrow> s | _ \<Rightarrow> [])"

definition is_stream_chunk :: "json \<Rightarrow> bool" where
  "is_stream_chunk c \<longleftrightarrow> is_object c \<and> chunk_fragment c = JStr (chunk_text c)"

text \<open>
  The reassembly that the specification describes: the fragments in arrival order, up to
  and including the first chunk that is done.
\<close>

fun reassemble :: "json list \<Rightarrow> pystr" where
  "reassemble [] = []"
| "reassemble (c # cs) = chunk_text c @ (if chunk_done c then [] else reassemble cs)"

text \<open>How many chunks are read: all of them up to and including the first that is done.\<close>

fun consumed :: "json list \<Rightarrow> nat" where
  "consumed [] = 0"
| "consumed (c # cs) = Suc (if chunk_done c then 0 else consumed cs)"

text \<open>Some chunk carries an error and no chunk before it is done.\<close>

fun error_reached :: "json list \<Rightarrow> bool" where
  "error_reached [] = False"
| "error_reached (c # cs) = (chunk_error c \<noteq> None \<or> (\<not> chunk_done c \<and> error_reached cs))"

text \<open>
  The daemon answers the request of the adapter with a status that is no error and with
  the lines \<open>ls\<close>; the lines \<open>ls\<close> decode to the chunks \<open>cs\<close>.
\<close>

definition served :: "env \<Rightarrow> pystr \<Rightarrow> pystr \<Rightarrow> pystr \<Rightarrow> string list \<Rightarrow> bool" where
  "served env prompt model url ls =
     (case post env url [(''json'', ollama_data prompt model)] of
        Inl e \<Rightarrow> False
      | Inr r \<Rightarrow> \<not> (400 \<le> status_code r \<and> status_code r < 600) \<and> iter_lines r = ls)"

definition decoded :: "env \<Rightarrow> string list \<Rightarrow> json list \<Rightarrow> bool" where
  "decoded env ls cs = list_all2 (\<lambda>l c. loads env (Bytes l) = Inr c) ls cs"

text \<open>
  The result type of the specification: a pair of integers, each from 1 to 5, or \<open>-1\<close>.
\<close>

fun is_score_result :: "retval \<Rightarrow> bool" where
  "is_score_result (PyTuple (JInt a) (JInt b)) = (1 \<le> a \<and> a \<le> 5 \<and> 1 \<le> b \<and> b \<le> 5)"
| "is_score_result (PyTuple s off) = False"
| "is_score_result (PyInt n) = (n = - 1)"

section \<open>A sample environment\<close>

text \<open>
  The value of \<^verbatim>\<open>json.loads\<close> at the inputs that the examples below use; everywhere
  else the sample decoder reports a decoding error.
\<close>

definition sample_loads :: "pydata \<Rightarrow> exn + json" where
  \<open>sample_loads x =
     (if x = Bytes ''{"response":"Hel","done":false}'' then
        Inr (JObj [(lit ''response'', JStr (lit ''Hel'')), (lit ''done'', JBool False)])
      else if x = Bytes ''{"response":"lo","done":false}'' then
        Inr (JObj [(lit ''response'', JStr (lit ''lo'')), (lit ''done'', JBool False)])
      else if x = Bytes ''{"response":"","done":true}'' then
        Inr (JObj [(lit ''response'', JStr []), (lit ''done'', JBool True)])
      else if x = Bytes ''{"response":" there ","done":true}'' then
        Inr (JObj [(lit ''response'', JStr (lit '' there '')), (lit ''done'', JBool True)])
      else if x = Bytes ''{"error":"model not found"}'' then
        Inr (JObj [(lit ''error'', JStr (lit ''model not found''))])
      else if x = Bytes ''{"error":"overloaded","response":"lo","done":true}'' then
        Inr (JObj [(lit ''error'', JStr (lit ''overloaded'')),
                   (lit ''response'', JStr (lit ''lo'')), (lit ''done'', JBool True)])
      else if x = Str (lit ''{"sentiment_score":1,"offensive_score":1}'') then
        Inr (JObj [(lit ''sentiment_score'', JInt 1), (lit ''offensive_score'', JInt 1)])
      else if x = Str (lit ''{"sentiment_score":7,"offensive_score":0}'') then
        Inr (JObj [(lit ''sentiment_score'', JInt 7), (lit ''offensive_score'', JInt 0)])
      else if x = Str (lit ''{"sentiment_score":3}'') then
        Inr (JObj [(lit ''sentiment_score'', JInt 3)])
      else if x = Str (lit ''[1,2]'') then Inr (JArr [JInt 1, JInt 2])
      else if x = NoneVal then Inl TypeError
      else Inl JSONDecodeError)\<close>

text \<open>
  An environment whose translator succeeds, whose local daemon answers with the given
  status and lines, and whose remote API answers with one choice of the given content.
\<close>

definition sample_env :: "pydata \<Rightarrow> nat \<Rightarrow> string list \<Rightarrow> env" where
  "sample_env reply status lines =
     \<lparr> tokenizer = (\<lambda>article. Inr [[256047, 2]]),
       lang_code_to_id = (\<lambda>k. if k = lit ''eng_Latn'' then Some 256047 else None),
       generate = (\<lambda>inputs bos max_length. Inr [[2, bos, 2]]),
       batch_decode = (\<lambda>tokens. Inr [lit ''This product is very bad'']),
       post = (\<lambda>url kw. Inr \<lparr> status_code = status, iter_lines = lines \<rparr>),
       create = (\<lambda>kw. Inr \<lparr> choices = [\<lparr> message = \<lparr> content = reply \<rparr> \<rparr>] \<rparr>),
       loads = sample_loads \<rparr>"

text \<open>The comment of the end-to-end scenario, as code points.\<close>

definition sample_comment :: pystr where
  "sample_comment =
     [66, 117, 32, 252, 114, 252, 110, 32, 231, 111, 107, 32, 107, 246, 116, 252]"

section \<open>Laws of the combinators and of the loop\<close>

lemma bind_io_Inl [simp]: "bind_io (t, Inl e) f = (t, Inl e)"
  by (simp add: bind_io_def)

lemma bind_io_Inr [simp]: "bind_io (t, Inr x) f = (t @ fst (f x), snd (f x))"
  by (simp add: bind_io_def split: prod.split)

lemma bind_io_return [simp]: "bind_io (return_io x) f = f x"
  by (simp add: return_io_def)

lemma bind_io_raise [simp]: "bind_io (raise_io e) f = raise_io e"
  by (simp add: raise_io_def)

lemma bind_io_lift_Inl [simp]: "bind_io (lift_io (Inl e)) f = raise_io e"
  by (simp add: lift_io_def raise_io_def)

lemma bind_io_lift_Inr [simp]: "bind_io (lift_io (Inr x)) f = f x"
  by (simp add: lift_io_def)

lemma bind_io_call_Inl [simp]: "bind_io (call_io ev (Inl e)) f = ([ev], Inl e)"
  by (simp add: call_io_def)

lemma bind_io_call_Inr [simp]: "bind_io (call_io ev (Inr x)) f = (ev # fst (f x), snd (f x))"
  by (simp add: call_io_def)

lemma fst_return_io [simp]: "fst (return_io x) = []"
  by (simp add: return_io_def)

lemma snd_return_io [simp]: "snd (return_io x) = Inr x"
  by (simp add: return_io_def)

lemma fst_raise_io [simp]: "fst (raise_io e) = []"
  by (simp add: raise_io_def)

lemma snd_raise_io [simp]: "snd (raise_io e) = Inl e"
  by (simp add: raise_io_def)

lemma loop_body_object:
  "is_object c \<Longrightarrow>
   loop_body c parts =
     (case chunk_error c of
        Some msg \<Rightarrow> Inl (Exception msg)
      | None \<Rightarrow> Inr (parts @ [chunk_fragment c], chunk_done c))"
  by (cases c)
     (auto simp: is_object_def loop_body_def chunk_error_def chunk_fragment_def chunk_done_def
           split: option.splits)

lemma for_lines_step:
  assumes "loads env (Bytes l) = Inr c" "is_object c"
  shows "for_lines env (l # rest) parts =
           (case chunk_error c of
              Some msg \<Rightarrow> ([Loads (Bytes l)], Inl (Exception msg))
            | None \<Rightarrow>
                if chunk_done c then ([Loads (Bytes l)], Inr (parts @ [chunk_fragment c]))
                else (Loads (Bytes l) # fst (for_lines env rest (parts @ [chunk_fragment c])),
                      snd (for_lines env rest (parts @ [chunk_fragment c]))))"
  using assms
  by (simp add: loop_body_object return_io_def raise_io_def split: option.splits)

lemma for_lines_continue:
  assumes "decoded env ls cs"
    and "\<forall>c\<in>set cs. is_object c \<and> chunk_error c = None \<and> \<not> chunk_done c"
  shows "for_lines env (ls @ rest) parts =
           (map (\<lambda>l. Loads (Bytes l)) ls @ fst (for_lines env rest (parts @ map chunk_fragment cs)),
            snd (for_lines env rest (parts @ map chunk_fragment cs)))"
  using assms unfolding decoded_def
proof (induction ls cs arbitrary: parts rule: list_all2_induct)
  case Nil
  then show ?case by simp
next
  case (Cons l ls c cs)
  then show ?case
    by (simp add: for_lines_step [of env l c] del: for_lines.simps)
qed

lemma for_lines_no_error:
  assumes "decoded env ls cs"
    and "\<forall>c\<in>set cs. is_object c"
    and "\<not> error_reached cs"
  shows "for_lines env ls parts =
           (map (\<lambda>l. Loads (Bytes l)) (take (consumed cs) ls),
            Inr (parts @ map chunk_fragment (take (consumed cs) cs)))"
  using assms unfolding decoded_def
proof (induction ls cs arbitrary: parts rule: list_all2_induct)
  case Nil
  then show ?case by (simp add: return_io_def)
next
  case (Cons l ls c cs)
  have c: "is_object c" "chunk_error c = None"
    using Cons.prems by simp_all
  show ?case
  proof (cases "chunk_done c")
    case True
    then show ?thesis
      using c Cons.hyps(1) by (simp add: for_lines_step [of env l c] del: for_lines.simps)
  next
    case False
    then have "for_lines env ls (parts @ [chunk_fragment c]) =
        (map (\<lambda>l. Loads (Bytes l)) (take (consumed cs) ls),
         Inr ((parts @ [chunk_fragment c]) @ map chunk_fragment (take (consumed cs) cs)))"
      using Cons.IH Cons.prems by simp
    then show ?thesis
      using False c Cons.hyps(1) by (simp add: for_lines_step [of env l c] del: for_lines.simps)
  qed
qed

lemma join_append:
  "join (xs @ ys) =
     (case join xs of
        Inl e \<Rightarrow> Inl e
      | Inr a \<Rightarrow> (case join ys of Inl e \<Rightarrow> Inl e | Inr b \<Rightarrow> Inr (a @ b)))"
  by (induction xs rule: join.induct) (simp_all split: sum.splits)

lemma join_fragments:
  "\<forall>c\<in>set cs. is_stream_chunk c \<Longrightarrow>
   join (map chunk_fragment cs) = Inr (concat (map chunk_text cs))"
  by (induction cs) (simp_all add: is_stream_chunk_def)

lemma reassemble_consumed:
  "reassemble cs = concat (map chunk_text (take (consumed cs) cs))"
  by (induction cs) simp_all

lemma get_completion_ollama_served:
  assumes "served env prompt model url ls"
  shows "get_completion_ollama env prompt model url =
           (Post url [(''json'', ollama_data prompt model)] # fst (for_lines env ls []),
            case snd (for_lines env ls []) of
              Inl e \<Rightarrow> Inl e
            | Inr parts \<Rightarrow> (case join parts of Inl e \<Rightarrow> Inl e | Inr s \<Rightarrow> Inr (Str (strip s))))"
proof -
  obtain r where r: "post env url [(''json'', ollama_data prompt model)] = Inr r"
    and ok: "raise_for_status r = Inr ()" and ls: "iter_lines r = ls"
    using assms by (auto simp: served_def raise_for_status_def split: sum.splits)
  obtain t x where tx: "for_lines env ls [] = (t, x)"
    by (cases "for_lines env ls []")
  show ?thesis
  proof (cases x)
    case (Inl e)
    then show ?thesis
      by (simp add: get_completion_ollama_def r ok ls tx)
  next
    case (Inr parts)
    then show ?thesis
      by (cases "join parts") (simp_all add: get_completion_ollama_def r ok ls tx)
  qed
qed

section \<open>Results of the combinators and of the orchestrator\<close>

lemma snd_bind_io:
  "snd (bind_io m f) = (case snd m of Inl e \<Rightarrow> Inl e | Inr x \<Rightarrow> snd (f x))"
  by (cases m; cases "snd m") simp_all

lemma fst_bind_io:
  "fst (bind_io m f) = (case snd m of Inl e \<Rightarrow> fst m | Inr x \<Rightarrow> fst m @ fst (f x))"
  by (cases m; cases "snd m") simp_all

lemma sentiment_analyzer_remote:
  "sentiment_analyzer env input False =
     bind_io (get_completion_openai env (prompt_of input) OPENAI_MODEL 0) (parse env)"
  by (simp add: sentiment_analyzer_def)

lemma sentiment_analyzer_local:
  "sentiment_analyzer env input True =
     bind_io (nllb_translate_tr_to_eng env input) (\<lambda>translated.
       bind_io (get_completion_ollama env (prompt_of translated) OLLAMA_MODEL ollama_url)
         (parse env))"
proof -
  obtain t x where tx: "nllb_translate_tr_to_eng env input = (t, x)"
    by (cases "nllb_translate_tr_to_eng env input")
  show ?thesis
    by (cases x) (simp_all add: sentiment_analyzer_def tx)
qed

lemma parse_eq:
  "parse env reply =
     ([Loads reply],
      Inr (case loads env reply of
             Inl e \<Rightarrow> PyInt (- 1)
           | Inr v \<Rightarrow>
               (case getitem v (lit ''sentiment_score'') of
                  Inl e \<Rightarrow> PyInt (- 1)
                | Inr s \<Rightarrow>
                    (case getitem v (lit ''offensive_score'') of
                       Inl e \<Rightarrow> PyInt (- 1)
                     | Inr off \<Rightarrow> PyTuple s off))))"
  by (simp add: parse_def try_except_def return_io_def raise_io_def split: sum.splits)

lemma getitem_Inr:
  "getitem v k = Inr x \<longleftrightarrow> (\<exists>d. v = JObj d \<and> map_of d k = Some x)"
  by (cases v) (auto split: option.splits)

lemma parse_result:
  assumes "snd (parse env reply) = Inr r"
  shows "r = PyInt (- 1) \<or>
         (\<exists>d s off. loads env reply = Inr (JObj d) \<and>
            map_of d (lit ''sentiment_score'') = Some s \<and>
            map_of d (lit ''offensive_score'') = Some off \<and> r = PyTuple s off)"
  using assms by (auto simp: parse_eq getitem_Inr split: sum.splits option.splits)

lemma analyzer_result_from_parse:
  assumes "snd (sentiment_analyzer env input is_local) = Inr r"
  shows "\<exists>reply.
           (if is_local then
              (\<exists>translated. snd (nllb_translate_tr_to_eng env input) = Inr translated \<and>
                 snd (get_completion_ollama env (prompt_of translated) OLLAMA_MODEL ollama_url) =
                   Inr reply)
            else snd (get_completion_openai env (prompt_of input) OPENAI_MODEL 0) = Inr reply) \<and>
           snd (parse env reply) = Inr r"
proof (cases is_local)
  case True
  with assms show ?thesis
    by (auto simp: sentiment_analyzer_local snd_bind_io split: sum.splits)
next
  case False
  with assms show ?thesis
    by (auto simp: sentiment_analyzer_remote snd_bind_io split: sum.splits)
qed

lemma sample_env_sel [simp]:
  "loads (sample_env reply status ls) = sample_loads"
  "post (sample_env reply status ls) u kw = Inr \<lparr> status_code = status, iter_lines = ls \<rparr>"
  "create (sample_env reply status ls) kw =
     Inr \<lparr> choices = [\<lparr> message = \<lparr> content = reply \<rparr> \<rparr>] \<rparr>"
  "tokenizer (sample_env reply status ls) a = Inr [[256047, 2]]"
  "lang_code_to_id (sample_env reply status ls) (lit ''eng_Latn'') = Some 256047"
  "generate (sample_env reply status ls) i b m = Inr [[2, b, 2]]"
  "batch_decode (sample_env reply status ls) t = Inr [lit ''This product is very bad'']"
  by (simp_all add: sample_env_def)

lemma sample_loads_7_0:
  \<open>sample_loads (Str (lit ''{"sentiment_score":7,"offensive_score":0}'')) =
     Inr (JObj [(lit ''sentiment_score'', JInt 7), (lit ''offensive_score'', JInt 0)])\<close>
  by (simp add: sample_loads_def lit_def)

lemma sample_loads_3:
  \<open>sample_loads (Str (lit ''{"sentiment_score":3}'')) = Inr (JObj [(lit ''sentiment_score'', JInt 3)])\<close>
  by (simp add: sample_loads_def lit_def)

lemma sample_loads_array:
  \<open>sample_loads (Str (lit ''[1,2]'')) = Inr (JArr [JInt 1, JInt 2])\<close>
  by (simp add: sample_loads_def lit_def)

lemma sample_loads_not_json:
  \<open>sample_loads (Str (lit ''not json'')) = Inl JSONDecodeError\<close>
  by (simp add: sample_loads_def lit_def)

lemma score_keys_distinct:
  "lit ''sentiment_score'' \<noteq> lit ''offensive_score''"
  by (simp add: lit_def)

section \<open>The parse step\<close>

text \<open>
  Claim C3. When the reply decodes to an object that holds integers under both
  \<^verbatim>\<open>sentiment_score\<close> and \<^verbatim>\<open>offensive_score\<close>, the parse step returns exactly
  that pair, whatever the integers are: no range is checked. The only call made is the
  one to the decoder.
\<close>

theorem parse_integer_pair_unchanged:
  assumes "loads env reply = Inr (JObj d)"
    and "map_of d (lit ''sentiment_score'') = Some (JInt a)"
    and "map_of d (lit ''offensive_score'') = Some (JInt b)"
  shows "parse env reply = ([Loads reply], Inr (PyTuple (JInt a) (JInt b)))"
  using assms by (simp add: parse_eq)

text \<open>An instance with scores outside the rubric: 7 and 0 are returned as they are.\<close>

theorem parse_integer_pair_unchanged_witness:
  \<open>loads (sample_env NoneVal 200 []) (Str (lit ''{"sentiment_score":7,"offensive_score":0}'')) =
     Inr (JObj [(lit ''sentiment_score'', JInt 7), (lit ''offensive_score'', JInt 0)]) \<and>
   map_of [(lit ''sentiment_score'', JInt 7), (lit ''offensive_score'', JInt 0)]
     (lit ''sentiment_score'') = Some (JInt 7) \<and>
   map_of [(lit ''sentiment_score'', JInt 7), (lit ''offensive_score'', JInt 0)]
     (lit ''offensive_score'') = Some (JInt 0) \<and>
   snd (parse (sample_env NoneVal 200 []) (Str (lit ''{"sentiment_score":7,"offensive_score":0}''))) =
     Inr (PyTuple (JInt 7) (JInt 0))\<close>
proof -
  let ?d = "[(lit ''sentiment_score'', JInt 7), (lit ''offensive_score'', JInt 0)]"
  have l: \<open>loads (sample_env NoneVal 200 []) (Str (lit ''{"sentiment_score":7,"offensive_score":0}'')) =
     Inr (JObj ?d)\<close>
    by (simp add: sample_loads_7_0)
  have s: "map_of ?d (lit ''sentiment_score'') = Some (JInt 7)"
    by simp
  have off: "map_of ?d (lit ''offensive_score'') = Some (JInt 0)"
    using score_keys_distinct by simp
  from parse_integer_pair_unchanged [OF l s off] l s off show ?thesis
    by simp
qed

text \<open>
  Claim C2. The parse step never raises: for every reply it returns a value. It returns
  \<open>-1\<close> when the reply does not decode, when it decodes to an object that lacks one of
  the two keys, and when it decodes to a value that is not an object, on which the key
  lookup fails.
\<close>

theorem parse_failure_gives_sentinel:
  "(\<exists>r. snd (parse env reply) = Inr r) \<and>
   (\<forall>e. loads env reply = Inl e \<longrightarrow> snd (parse env reply) = Inr (PyInt (- 1))) \<and>
   (\<forall>d. loads env reply = Inr (JObj d) \<and>
        (map_of d (lit ''sentiment_score'') = None \<or> map_of d (lit ''offensive_score'') = None)
        \<longrightarrow> snd (parse env reply) = Inr (PyInt (- 1))) \<and>
   (\<forall>v. loads env reply = Inr v \<and> \<not> is_object v \<longrightarrow> snd (parse env reply) = Inr (PyInt (- 1)))"
proof (intro conjI allI impI)
  show "\<exists>r. snd (parse env reply) = Inr r"
    by (simp add: parse_eq)
next
  fix e
  assume "loads env reply = Inl e"
  then show "snd (parse env reply) = Inr (PyInt (- 1))"
    by (simp add: parse_eq)
next
  fix d
  assume "loads env reply = Inr (JObj d) \<and>
    (map_of d (lit ''sentiment_score'') = None \<or> map_of d (lit ''offensive_score'') = None)"
  then show "snd (parse env reply) = Inr (PyInt (- 1))"
    by (auto simp: parse_eq split: option.splits)
next
  fix v
  assume "loads env reply = Inr v \<and> \<not> is_object v"
  then show "snd (parse env reply) = Inr (PyInt (- 1))"
    by (cases v) (simp_all add: parse_eq is_object_def)
qed

text \<open>Instances: a reply that is no JSON, one that lacks a key, one that is an array.\<close>

theorem parse_failure_gives_sentinel_witness:
  \<open>loads (sample_env NoneVal 200 []) (Str (lit ''not json'')) = Inl JSONDecodeError \<and>
   snd (parse (sample_env NoneVal 200 []) (Str (lit ''not json''))) = Inr (PyInt (- 1)) \<and>
   loads (sample_env NoneVal 200 []) (Str (lit ''{"sentiment_score":3}'')) =
     Inr (JObj [(lit ''sentiment_score'', JInt 3)]) \<and>
   map_of [(lit ''sentiment_score'', JInt 3)] (lit ''offensive_score'') = None \<and>
   snd (parse (sample_env NoneVal 200 []) (Str (lit ''{"sentiment_score":3}''))) = Inr (PyInt (- 1)) \<and>
   loads (sample_env NoneVal 200 []) (Str (lit ''[1,2]'')) = Inr (JArr [JInt 1, JInt 2]) \<and>
   \<not> is_object (JArr [JInt 1, JInt 2]) \<and>
   snd (parse (sample_env NoneVal 200 []) (Str (lit ''[1,2]''))) = Inr (PyInt (- 1))\<close>
proof -
  let ?E = "sample_env NoneVal 200 []"
  have a: \<open>loads ?E (Str (lit ''not json'')) = Inl JSONDecodeError\<close>
    by (simp add: sample_loads_not_json)
  have b: \<open>loads ?E (Str (lit ''{"sentiment_score":3}'')) = Inr (JObj [(lit ''sentiment_score'', JInt 3)])\<close>
    by (simp add: sample_loads_3)
  have b': "map_of [(lit ''sentiment_score'', JInt 3)] (lit ''offensive_score'') = None"
    using score_keys_distinct by simp
  have c: \<open>loads ?E (Str (lit ''[1,2]'')) = Inr (JArr [JInt 1, JInt 2])\<close>
    by (simp add: sample_loads_array)
  have c': "\<not> is_object (JArr [JInt 1, JInt 2])"
    by (simp add: is_object_def)
  from parse_failure_gives_sentinel [of ?E \<open>Str (lit ''not json'')\<close>] a
  have 1: \<open>snd (parse ?E (Str (lit ''not json''))) = Inr (PyInt (- 1))\<close>
    by blast
  from parse_failure_gives_sentinel [of ?E \<open>Str (lit ''{"sentiment_score":3}'')\<close>] b b'
  have 2: \<open>snd (parse ?E (Str (lit ''{"sentiment_score":3}''))) = Inr (PyInt (- 1))\<close>
    by blast
  from parse_failure_gives_sentinel [of ?E \<open>Str (lit ''[1,2]'')\<close>] c c'
  have 3: \<open>snd (parse ?E (Str (lit ''[1,2]''))) = Inr (PyInt (- 1))\<close>
    by blast
  from a b b' c c' 1 2 3 show ?thesis
    by blast
qed

lemma sample_loads_1_1:
  \<open>sample_loads (Str (lit ''{"sentiment_score":1,"offensive_score":1}'')) =
     Inr (JObj [(lit ''sentiment_score'', JInt 1), (lit ''offensive_score'', JInt 1)])\<close>
  by (simp add: sample_loads_def lit_def)

lemma sample_remote_analysis:
  "snd (sentiment_analyzer (sample_env reply status ls) input False) =
     snd (parse (sample_env reply status ls) reply)"
  by (simp add: sentiment_analyzer_remote get_completion_openai_def)

text \<open>
  Claim C1, as amended. Whatever the input and the reply of the selected backend, a
  value that \<^verbatim>\<open>sentiment_analyzer\<close> returns is either \<open>-1\<close> or the pair of the two
  values that the decoded reply holds under \<^verbatim>\<open>sentiment_score\<close> and
  \<^verbatim>\<open>offensive_score\<close>; the code checks neither their type nor their range.
\<close>

theorem analyzer_returns_pair_or_sentinel:
  assumes "snd (sentiment_analyzer env input is_local) = Inr r"
  shows "\<exists>reply.
           (if is_local then
              (\<exists>translated. snd (nllb_translate_tr_to_eng env input) = Inr translated \<and>
                 snd (get_completion_ollama env (prompt_of translated) OLLAMA_MODEL ollama_url) =
                   Inr reply)
            else snd (get_completion_openai env (prompt_of input) OPENAI_MODEL 0) = Inr reply) \<and>
           (r = PyInt (- 1) \<or>
            (\<exists>d s off. loads env reply = Inr (JObj d) \<and>
               map_of d (lit ''sentiment_score'') = Some s \<and>
               map_of d (lit ''offensive_score'') = Some off \<and> r = PyTuple s off))"
proof -
  from analyzer_result_from_parse [OF assms] obtain reply
    where a: "if is_local then
              (\<exists>translated. snd (nllb_translate_tr_to_eng env input) = Inr translated \<and>
                 snd (get_completion_ollama env (prompt_of translated) OLLAMA_MODEL ollama_url) =
                   Inr reply)
            else snd (get_completion_openai env (prompt_of input) OPENAI_MODEL 0) = Inr reply"
      and p: "snd (parse env reply) = Inr r"
    by blast
  from parse_result [OF p] a show ?thesis
    by blast
qed

text \<open>The end-to-end scenario of the specification: the remote backend replies (1, 1).\<close>

theorem analyzer_returns_pair_or_sentinel_witness:
  \<open>snd (sentiment_analyzer
          (sample_env (Str (lit ''{"sentiment_score":1,"offensive_score":1}'')) 200 [])
          sample_comment False) = Inr (PyTuple (JInt 1) (JInt 1)) \<and>
   (\<exists>reply.
      snd (get_completion_openai
             (sample_env (Str (lit ''{"sentiment_score":1,"offensive_score":1}'')) 200 [])
             (prompt_of sample_comment) OPENAI_MODEL 0) = Inr reply \<and>
      (\<exists>d. loads (sample_env (Str (lit ''{"sentiment_score":1,"offensive_score":1}'')) 200 [])
             reply = Inr (JObj d) \<and>
           map_of d (lit ''sentiment_score'') = Some (JInt 1) \<and>
           map_of d (lit ''offensive_score'') = Some (JInt 1)))\<close>
proof -
  have h: \<open>snd (sentiment_analyzer
          (sample_env (Str (lit ''{"sentiment_score":1,"offensive_score":1}'')) 200 [])
          sample_comment False) = Inr (PyTuple (JInt 1) (JInt 1))\<close>
    using score_keys_distinct
    by (simp add: sample_remote_analysis parse_eq sample_loads_1_1)
  from analyzer_returns_pair_or_sentinel [OF h] h show ?thesis
    by auto
qed

text \<open>
  Claim C1 as stated fails: when the remote backend replies with the scores 7 and 0,
  the pair (7, 0) is returned, which is neither a pair of scores in 1..5 nor \<open>-1\<close>.
\<close>

theorem analyzer_scores_in_range_counterexample:
  \<open>snd (sentiment_analyzer
          (sample_env (Str (lit ''{"sentiment_score":7,"offensive_score":0}'')) 200 [])
          sample_comment False) = Inr (PyTuple (JInt 7) (JInt 0)) \<and>
   \<not> is_score_result (PyTuple (JInt 7) (JInt 0))\<close>
  using score_keys_distinct
  by (simp add: sample_remote_analysis parse_eq sample_loads_7_0)

section \<open>The remote adapter\<close>

lemma get_completion_openai_eq:
  "get_completion_openai env prompt model temperature =
     ([Create (openai_kwargs prompt model temperature)],
      case create env (openai_kwargs prompt model temperature) of
        Inl e \<Rightarrow> Inl e
      | Inr r \<Rightarrow> (case choices r of [] \<Rightarrow> Inl IndexError | c # cs \<Rightarrow> Inr (content (message c))))"
  by (simp add: get_completion_openai_def split: sum.splits list.splits)

text \<open>
  Claim C8. Called on a prompt, with the model and the temperature at their defaults,
  the remote adapter makes exactly one library call, whatever its outcome: the chat
  completion request whose only message is the prompt in the role \<^verbatim>\<open>user\<close>, with the
  response format \<^verbatim>\<open>json_object\<close>, temperature 0 and no \<^verbatim>\<open>stream\<close> argument. It returns
  the content of the first choice as it is, and a failure of the request is raised as it
  is, without a second request.
\<close>

theorem openai_single_request:
  "fst (get_completion_openai env prompt OPENAI_MODEL 0) =
     [Create (openai_kwargs prompt OPENAI_MODEL 0)] \<and>
   map_of (openai_kwargs prompt OPENAI_MODEL 0) ''messages'' =
     Some (JArr [JObj [(lit ''role'', JStr (lit ''user'')), (lit ''content'', JStr prompt)]]) \<and>
   map_of (openai_kwargs prompt OPENAI_MODEL 0) ''response_format'' =
     Some (JObj [(lit ''type'', JStr (lit ''json_object''))]) \<and>
   map_of (openai_kwargs prompt OPENAI_MODEL 0) ''temperature'' = Some (JInt 0) \<and>
   map_of (openai_kwargs prompt OPENAI_MODEL 0) ''stream'' = None \<and>
   (\<forall>r c cs. create env (openai_kwargs prompt OPENAI_MODEL 0) = Inr r \<and> choices r = c # cs
      \<longrightarrow> snd (get_completion_openai env prompt OPENAI_MODEL 0) = Inr (content (message c))) \<and>
   (\<forall>e. create env (openai_kwargs prompt OPENAI_MODEL 0) = Inl e
      \<longrightarrow> snd (get_completion_openai env prompt OPENAI_MODEL 0) = Inl e)"
  by (simp add: get_completion_openai_eq) (simp add: openai_kwargs_def)

text \<open>An instance: the reply of the sample API comes back unchanged.\<close>

theorem openai_single_request_witness:
  \<open>create (sample_env (Str (lit ''I cannot help with that.'')) 200 [])
      (openai_kwargs (prompt_of sample_comment) OPENAI_MODEL 0) =
     Inr \<lparr> choices = [\<lparr> message = \<lparr> content = Str (lit ''I cannot help with that.'') \<rparr> \<rparr>] \<rparr> \<and>
   get_completion_openai (sample_env (Str (lit ''I cannot help with that.'')) 200 [])
      (prompt_of sample_comment) OPENAI_MODEL 0 =
     ([Create (openai_kwargs (prompt_of sample_comment) OPENAI_MODEL 0)],
      Inr (Str (lit ''I cannot help with that.'')))\<close>
proof -
  let ?E = \<open>sample_env (Str (lit ''I cannot help with that.'')) 200 []\<close>
  let ?kw = "openai_kwargs (prompt_of sample_comment) OPENAI_MODEL 0"
  let ?c = \<open>\<lparr> message = \<lparr> content = Str (lit ''I cannot help with that.'') \<rparr> \<rparr>\<close>
  have c: "create ?E ?kw = Inr \<lparr> choices = [?c] \<rparr>"
    by simp
  have ch: "choices \<lparr> choices = [?c] \<rparr> = ?c # []"
    by simp
  from openai_single_request [of ?E "prompt_of sample_comment"] c ch
  have "fst (get_completion_openai ?E (prompt_of sample_comment) OPENAI_MODEL 0) = [Create ?kw]"
    and "snd (get_completion_openai ?E (prompt_of sample_comment) OPENAI_MODEL 0) =
           Inr (content (message ?c))"
    by blast+
  then have "get_completion_openai ?E (prompt_of sample_comment) OPENAI_MODEL 0 =
      ([Create ?kw], Inr (content (message ?c)))"
    by (simp add: prod_eq_iff)
  with c show ?thesis
    by simp
qed

section \<open>The local adapter\<close>

lemma get_completion_ollama_eq:
  "get_completion_ollama env prompt model url =
     (case post env url [(''json'', ollama_data prompt model)] of
        Inl e \<Rightarrow> ([Post url [(''json'', ollama_data prompt model)]], Inl e)
      | Inr r \<Rightarrow>
          (case raise_for_status r of
             Inl e \<Rightarrow> ([Post url [(''json'', ollama_data prompt model)]], Inl e)
           | Inr u \<Rightarrow>
               (Post url [(''json'', ollama_data prompt model)] #
                  fst (for_lines env (iter_lines r) []),
                case snd (for_lines env (iter_lines r) []) of
                  Inl e \<Rightarrow> Inl e
                | Inr parts \<Rightarrow>
                    (case join parts of Inl e \<Rightarrow> Inl e | Inr s \<Rightarrow> Inr (Str (strip s))))))"
proof (cases "post env url [(''json'', ollama_data prompt model)]")
  case (Inl e)
  then show ?thesis
    by (simp add: get_completion_ollama_def)
next
  case (Inr r)
  note r = this
  show ?thesis
  proof (cases "raise_for_status r")
    case (Inl e)
    then show ?thesis
      by (simp add: get_completion_ollama_def r raise_io_def)
  next
    case (Inr u)
    note ok = this
    obtain t x where tx: "for_lines env (iter_lines r) [] = (t, x)"
      by (cases "for_lines env (iter_lines r) []")
    show ?thesis
    proof (cases x)
      case (Inl e)
      then show ?thesis
        by (simp add: get_completion_ollama_def r ok tx)
    next
      case (Inr parts)
      then show ?thesis
        by (cases "join parts") (simp_all add: get_completion_ollama_def r ok tx)
    qed
  qed
qed

lemma for_lines_events:
  "ev \<in> set (fst (for_lines env ls parts)) \<Longrightarrow> component_of ev = Decoder"
proof (induction ls arbitrary: parts)
  case Nil
  then show ?case by simp
next
  case (Cons l ls)
  show ?case
  proof (cases "loads env (Bytes l)")
    case (Inl e)
    with Cons.prems show ?thesis by simp
  next
    case (Inr body)
    note body = this
    show ?thesis
    proof (cases "loop_body body parts")
      case (Inl e)
      with Cons.prems body show ?thesis by simp
    next
      case (Inr ps)
      obtain parts' stop where ps: "ps = (parts', stop)"
        by (cases ps)
      show ?thesis
        using Cons.prems Cons.IH [of parts'] body Inr ps
        by (cases stop) auto
    qed
  qed
qed

lemma get_completion_ollama_events:
  "\<exists>ds. fst (get_completion_ollama env prompt model url) =
          Post url [(''json'', ollama_data prompt model)] # ds \<and>
        (\<forall>ev\<in>set ds. component_of ev = Decoder)"
  by (auto simp: get_completion_ollama_eq for_lines_events split: sum.splits)

text \<open>
  Claim C9, as amended. The local adapter issues one HTTP request, with the URL and the
  JSON body as its only arguments: no request that it issues carries a \<^verbatim>\<open>timeout\<close>
  argument, so the adapter sets no bound on the time to connect or to read. A request
  that fails makes the call fail with the exception of the library, and so does an
  answer with a 4xx or 5xx status; in both cases nothing else is called.
\<close>

theorem ollama_request_without_timeout:
  "(\<exists>ds. fst (get_completion_ollama env prompt model url) =
           Post url [(''json'', ollama_data prompt model)] # ds \<and>
         (\<forall>ev\<in>set ds. component_of ev = Decoder)) \<and>
   (\<forall>u kw. Post u kw \<in> set (fst (get_completion_ollama env prompt model url))
      \<longrightarrow> map_of kw ''timeout'' = None) \<and>
   (\<forall>e. post env url [(''json'', ollama_data prompt model)] = Inl e
      \<longrightarrow> get_completion_ollama env prompt model url =
            ([Post url [(''json'', ollama_data prompt model)]], Inl e)) \<and>
   (\<forall>r. post env url [(''json'', ollama_data prompt model)] = Inr r \<and>
        400 \<le> status_code r \<and> status_code r < 600
      \<longrightarrow> get_completion_ollama env prompt model url =
            ([Post url [(''json'', ollama_data prompt model)]],
             Inl (HTTPError (status_code r))))"
proof (intro conjI allI impI)
  show "\<exists>ds. fst (get_completion_ollama env prompt model url) =
           Post url [(''json'', ollama_data prompt model)] # ds \<and>
         (\<forall>ev\<in>set ds. component_of ev = Decoder)"
    by (rule get_completion_ollama_events)
next
  fix u kw
  assume p: "Post u kw \<in> set (fst (get_completion_ollama env prompt model url))"
  obtain ds where ds: "fst (get_completion_ollama env prompt model url) =
      Post url [(''json'', ollama_data prompt model)] # ds"
    and dec: "\<forall>ev\<in>set ds. component_of ev = Decoder"
    using get_completion_ollama_events by blast
  from p ds dec have "kw = [(''json'', ollama_data prompt model)]"
    by auto
  then show "map_of kw ''timeout'' = None"
    by simp
next
  fix e
  assume "post env url [(''json'', ollama_data prompt model)] = Inl e"
  then show "get_completion_ollama env prompt model url =
      ([Post url [(''json'', ollama_data prompt model)]], Inl e)"
    by (simp add: get_completion_ollama_eq)
next
  fix r
  assume "post env url [(''json'', ollama_data prompt model)] = Inr r \<and>
    400 \<le> status_code r \<and> status_code r < 600"
  then show "get_completion_ollama env prompt model url =
      ([Post url [(''json'', ollama_data prompt model)]], Inl (HTTPError (status_code r)))"
    by (simp add: get_completion_ollama_eq raise_for_status_def)
qed

text \<open>An instance: the sample daemon answers with status 503.\<close>

theorem ollama_request_without_timeout_witness:
  "post (sample_env NoneVal 503 []) ollama_url
      [(''json'', ollama_data (prompt_of sample_comment) OLLAMA_MODEL)] =
     Inr \<lparr> status_code = 503, iter_lines = [] \<rparr> \<and>
   get_completion_ollama (sample_env NoneVal 503 []) (prompt_of sample_comment) OLLAMA_MODEL
      ollama_url =
     ([Post ollama_url [(''json'', ollama_data (prompt_of sample_comment) OLLAMA_MODEL)]],
      Inl (HTTPError 503)) \<and>
   map_of [(''json'', ollama_data (prompt_of sample_comment) OLLAMA_MODEL)] ''timeout'' = None"
proof -
  let ?E = "sample_env NoneVal 503 []"
  let ?kw = "[(''json'', ollama_data (prompt_of sample_comment) OLLAMA_MODEL)]"
  have p: "post ?E ollama_url ?kw = Inr \<lparr> status_code = 503, iter_lines = [] \<rparr>"
    by simp
  have s: "400 \<le> status_code \<lparr> status_code = 503, iter_lines = [] \<rparr> \<and>
           status_code \<lparr> status_code = 503, iter_lines = [] \<rparr> < 600"
    by simp
  from ollama_request_without_timeout [of ?E "prompt_of sample_comment" OLLAMA_MODEL ollama_url]
    p s
  have r: "get_completion_ollama ?E (prompt_of sample_comment) OLLAMA_MODEL ollama_url =
      ([Post ollama_url ?kw],
       Inl (HTTPError (status_code \<lparr> status_code = 503, iter_lines = [] \<rparr>)))"
    by blast
  from ollama_request_without_timeout [of ?E "prompt_of sample_comment" OLLAMA_MODEL ollama_url]
  have "\<forall>u kw. Post u kw \<in>
      set (fst (get_completion_ollama ?E (prompt_of sample_comment) OLLAMA_MODEL ollama_url))
      \<longrightarrow> map_of kw ''timeout'' = None"
    by blast
  with r have "map_of ?kw ''timeout'' = None"
    by simp
  with p r show ?thesis
    by simp
qed

text \<open>
  Claim C9 as stated fails: the request that the adapter sends for the sample comment
  has the JSON body as its only keyword argument, and no \<^verbatim>\<open>timeout\<close>.
\<close>

theorem ollama_timeout_counterexample:
  "fst (get_completion_ollama (sample_env NoneVal 200 []) (prompt_of sample_comment)
          OLLAMA_MODEL ollama_url) =
     [Post ollama_url [(''json'', ollama_data (prompt_of sample_comment) OLLAMA_MODEL)]] \<and>
   map_of [(''json'', ollama_data (prompt_of sample_comment) OLLAMA_MODEL)] ''timeout'' = None"
  by (simp add: get_completion_ollama_eq raise_for_status_def)

lemma sample_loads_Hel:
  \<open>sample_loads (Bytes ''{"response":"Hel","done":false}'') =
     Inr (JObj [(lit ''response'', JStr (lit ''Hel'')), (lit ''done'', JBool False)])\<close>
  by (simp add: sample_loads_def)

lemma sample_loads_lo:
  \<open>sample_loads (Bytes ''{"response":"lo","done":false}'') =
     Inr (JObj [(lit ''response'', JStr (lit ''lo'')), (lit ''done'', JBool False)])\<close>
  by (simp add: sample_loads_def)

lemma sample_loads_end:
  \<open>sample_loads (Bytes ''{"response":"","done":true}'') =
     Inr (JObj [(lit ''response'', JStr []), (lit ''done'', JBool True)])\<close>
  by (simp add: sample_loads_def)

lemma sample_loads_there:
  \<open>sample_loads (Bytes ''{"response":" there ","done":true}'') =
     Inr (JObj [(lit ''response'', JStr (lit '' there '')), (lit ''done'', JBool True)])\<close>
  by (simp add: sample_loads_def)


lemma sample_loads_overloaded:
  \<open>sample_loads (Bytes ''{"error":"overloaded","response":"lo","done":true}'') =
     Inr (JObj [(lit ''error'', JStr (lit ''overloaded'')),
                (lit ''response'', JStr (lit ''lo'')), (lit ''done'', JBool True)])\<close>
  by (simp add: sample_loads_def)

lemma chunk_keys_distinct:
  "lit ''response'' \<noteq> lit ''done''" "lit ''response'' \<noteq> lit ''error''"
  "lit ''done'' \<noteq> lit ''error''" "lit ''done'' \<noteq> lit ''response''"
  "lit ''error'' \<noteq> lit ''response''" "lit ''error'' \<noteq> lit ''done''"
  by (simp_all add: lit_def)

lemma sample_served:
  "served (sample_env reply 200 ls) prompt model url ls"
  by (simp add: served_def)

lemma strip_Hello: "strip (lit ''Hel'' @ lit ''lo'') = lit ''Hello''"
  by (simp add: strip_def lit_def isspace_def)

lemma strip_Hel_there: "strip (lit ''Hel'' @ lit '' there '') = lit ''Hel there''"
  by (simp add: strip_def lit_def isspace_def)


text \<open>
  Claim C4, as amended. Let the daemon answer with lines that decode to a finite
  sequence of stream chunks (objects whose \<^verbatim>\<open>response\<close>, when present, is a string),
  none of which, up to and including the first one whose \<^verbatim>\<open>done\<close> is true, carries an
  \<^verbatim>\<open>error\<close> field. Then the local adapter decodes the lines up to and including that
  first done chunk and no further, and returns the fragments of these chunks, the empty
  string standing for an absent one, concatenated in arrival order and stripped of
  leading and trailing whitespace.
\<close>

theorem ollama_reassembles_chunks:
  assumes "served env prompt model url ls"
    and "decoded env ls cs"
    and "\<forall>c\<in>set cs. is_stream_chunk c"
    and "\<not> error_reached cs"
  shows "get_completion_ollama env prompt model url =
           (Post url [(''json'', ollama_data prompt model)] #
              map (\<lambda>l. Loads (Bytes l)) (take (consumed cs) ls),
            Inr (Str (strip (reassemble cs))))"
proof -
  have obj: "\<forall>c\<in>set cs. is_object c"
    using assms(3) by (simp add: is_stream_chunk_def)
  have loop: "for_lines env ls [] =
      (map (\<lambda>l. Loads (Bytes l)) (take (consumed cs) ls),
       Inr ([] @ map chunk_fragment (take (consumed cs) cs)))"
    using assms(2) obj assms(4) by (rule for_lines_no_error)
  have "\<forall>c\<in>set (take (consumed cs) cs). is_stream_chunk c"
    using assms(3) by (meson in_set_takeD)
  then have "join (map chunk_fragment (take (consumed cs) cs)) = Inr (reassemble cs)"
    by (simp add: join_fragments reassemble_consumed)
  with loop show ?thesis
    by (simp add: get_completion_ollama_served [OF assms(1)])
qed

text \<open>
  The example of the specification: the chunks \<^verbatim>\<open>Hel\<close>, \<^verbatim>\<open>lo\<close> and the empty final
  chunk give \<^verbatim>\<open>Hello\<close>.
\<close>

theorem ollama_reassembles_chunks_witness:
  \<open>served
     (sample_env NoneVal 200
        [''{"response":"Hel","done":false}'', ''{"response":"lo","done":false}'',
         ''{"response":"","done":true}''])
     (prompt_of sample_comment) OLLAMA_MODEL ollama_url
     [''{"response":"Hel","done":false}'', ''{"response":"lo","done":false}'',
      ''{"response":"","done":true}''] \<and>
   decoded
     (sample_env NoneVal 200
        [''{"response":"Hel","done":false}'', ''{"response":"lo","done":false}'',
         ''{"response":"","done":true}''])
     [''{"response":"Hel","done":false}'', ''{"response":"lo","done":false}'',
      ''{"response":"","done":true}'']
     [JObj [(lit ''response'', JStr (lit ''Hel'')), (lit ''done'', JBool False)],
      JObj [(lit ''response'', JStr (lit ''lo'')), (lit ''done'', JBool False)],
      JObj [(lit ''response'', JStr []), (lit ''done'', JBool True)]] \<and>
   get_completion_ollama
     (sample_env NoneVal 200
        [''{"response":"Hel","done":false}'', ''{"response":"lo","done":false}'',
         ''{"response":"","done":true}''])
     (prompt_of sample_comment) OLLAMA_MODEL ollama_url =
     ([Post ollama_url [(''json'', ollama_data (prompt_of sample_comment) OLLAMA_MODEL)],
       Loads (Bytes ''{"response":"Hel","done":false}''),
       Loads (Bytes ''{"response":"lo","done":false}''),
       Loads (Bytes ''{"response":"","done":true}'')],
      Inr (Str (lit ''Hello'')))\<close>
proof -
  let ?ls = \<open>[''{"response":"Hel","done":false}'', ''{"response":"lo","done":false}'',
      ''{"response":"","done":true}'']\<close>
  let ?c1 = "JObj [(lit ''response'', JStr (lit ''Hel'')), (lit ''done'', JBool False)]"
  let ?c2 = "JObj [(lit ''response'', JStr (lit ''lo'')), (lit ''done'', JBool False)]"
  let ?c3 = "JObj [(lit ''response'', JStr []), (lit ''done'', JBool True)]"
  let ?E = "sample_env NoneVal 200 ?ls"
  have s: "served ?E (prompt_of sample_comment) OLLAMA_MODEL ollama_url ?ls"
    by (rule sample_served)
  have d: "decoded ?E ?ls [?c1, ?c2, ?c3]"
    by (simp add: decoded_def sample_loads_Hel sample_loads_lo sample_loads_end)
  have frag: "chunk_text ?c1 = lit ''Hel''" "chunk_text ?c2 = lit ''lo''" "chunk_text ?c3 = []"
    by (simp_all add: chunk_text_def chunk_fragment_def)
  have dn: "\<not> chunk_done ?c1" "\<not> chunk_done ?c2" "chunk_done ?c3"
    using chunk_keys_distinct by (simp_all add: chunk_done_def)
  have er: "chunk_error ?c1 = None" "chunk_error ?c2 = None" "chunk_error ?c3 = None"
    using chunk_keys_distinct by (simp_all add: chunk_error_def)
  have w: "\<forall>c\<in>set [?c1, ?c2, ?c3]. is_stream_chunk c"
    by (simp add: is_stream_chunk_def is_object_def chunk_text_def chunk_fragment_def)
  have n: "\<not> error_reached [?c1, ?c2, ?c3]"
    using er by simp
  have "reassemble [?c1, ?c2, ?c3] = lit ''Hel'' @ lit ''lo''"
    using frag dn by simp
  then have r: "strip (reassemble [?c1, ?c2, ?c3]) = lit ''Hello''"
    by (simp only: strip_Hello)
  have k: "consumed [?c1, ?c2, ?c3] = 3"
    using dn by simp
  from ollama_reassembles_chunks [OF s d w n] r k s d show ?thesis
    by simp
qed

text \<open>
  Claim C4 as stated fails on a stream chunk that has a fragment, a true \<^verbatim>\<open>done\<close>
  field and an \<^verbatim>\<open>error\<close> field: the claim asks for the fragment \<^verbatim>\<open>lo\<close>, the adapter
  raises.
\<close>

theorem ollama_reassembles_chunks_counterexample:
  \<open>served (sample_env NoneVal 200 [''{"error":"overloaded","response":"lo","done":true}''])
     (prompt_of sample_comment) OLLAMA_MODEL ollama_url
     [''{"error":"overloaded","response":"lo","done":true}''] \<and>
   decoded (sample_env NoneVal 200 [''{"error":"overloaded","response":"lo","done":true}''])
     [''{"error":"overloaded","response":"lo","done":true}'']
     [JObj [(lit ''error'', JStr (lit ''overloaded'')), (lit ''response'', JStr (lit ''lo'')),
            (lit ''done'', JBool True)]] \<and>
   is_stream_chunk
     (JObj [(lit ''error'', JStr (lit ''overloaded'')), (lit ''response'', JStr (lit ''lo'')),
            (lit ''done'', JBool True)]) \<and>
   reassemble
     [JObj [(lit ''error'', JStr (lit ''overloaded'')), (lit ''response'', JStr (lit ''lo'')),
            (lit ''done'', JBool True)]] = lit ''lo'' \<and>
   snd (get_completion_ollama
          (sample_env NoneVal 200 [''{"error":"overloaded","response":"lo","done":true}''])
          (prompt_of sample_comment) OLLAMA_MODEL ollama_url) =
     Inl (Exception (JStr (lit ''overloaded'')))\<close>
proof -
  let ?l = \<open>''{"error":"overloaded","response":"lo","done":true}''\<close>
  let ?c = "JObj [(lit ''error'', JStr (lit ''overloaded'')),
                  (lit ''response'', JStr (lit ''lo'')), (lit ''done'', JBool True)]"
  let ?E = "sample_env NoneVal 200 [?l]"
  have s: "served ?E (prompt_of sample_comment) OLLAMA_MODEL ollama_url [?l]"
    by (rule sample_served)
  have d: "decoded ?E [?l] [?c]"
    by (simp add: decoded_def sample_loads_overloaded)
  have t: "chunk_text ?c = lit ''lo''" "chunk_done ?c"
    using chunk_keys_distinct by (simp_all add: chunk_text_def chunk_fragment_def chunk_done_def)
  have w: "is_stream_chunk ?c"
    using chunk_keys_distinct
    by (simp add: is_stream_chunk_def is_object_def chunk_text_def chunk_fragment_def)
  have r: "reassemble [?c] = lit ''lo''"
    using t by simp
  have l: "loads ?E (Bytes ?l) = Inr ?c"
    by (simp add: sample_loads_overloaded)
  have "for_lines ?E [?l] [] = ([Loads (Bytes ?l)], Inl (Exception (JStr (lit ''overloaded''))))"
    by (simp add: for_lines_step [OF l] is_object_def chunk_error_def del: for_lines.simps)
  then have "snd (get_completion_ollama ?E (prompt_of sample_comment) OLLAMA_MODEL ollama_url) =
      Inl (Exception (JStr (lit ''overloaded'')))"
    by (simp add: get_completion_ollama_served [OF s])
  with s d w r show ?thesis
    by simp
qed




text \<open>
  Claim C10. A chunk is handled in the order error check, accumulation of the fragment,
  done check. So the loop body raises on an object with an \<^verbatim>\<open>error\<close> field whatever
  its other fields are, and on an object without one it appends the fragment before it
  looks at \<^verbatim>\<open>done\<close>. For the adapter, when the chunks before are stream chunks with
  neither an error nor a true \<^verbatim>\<open>done\<close>: a chunk with both an \<^verbatim>\<open>error\<close> field and a true
  \<^verbatim>\<open>done\<close> makes the call raise with the error value, its fragment being dropped with
  all the others, and the string fragment of a chunk with a true \<^verbatim>\<open>done\<close> and no
  \<^verbatim>\<open>error\<close> is the last part of the text that is stripped and returned.
\<close>

theorem chunk_processing_order:
  assumes "served env prompt model url (ls @ l # rest)"
    and "decoded env ls cs"
    and "\<forall>c\<in>set cs. is_stream_chunk c \<and> chunk_error c = None \<and> \<not> chunk_done c"
    and "loads env (Bytes l) = Inr c"
    and "is_object c"
    and "chunk_done c"
  shows "(\<forall>msg. chunk_error c = Some msg \<longrightarrow>
            (\<forall>parts. loop_body c parts = Inl (Exception msg)) \<and>
            snd (get_completion_ollama env prompt model url) = Inl (Exception msg)) \<and>
         (chunk_error c = None \<longrightarrow>
            (\<forall>parts. loop_body c parts = Inr (parts @ [chunk_fragment c], True)) \<and>
            (chunk_fragment c = JStr (chunk_text c) \<longrightarrow>
               snd (get_completion_ollama env prompt model url) =
                 Inr (Str (strip (concat (map chunk_text cs) @ chunk_text c)))))"
proof -
  have pre: "\<forall>c\<in>set cs. is_object c \<and> chunk_error c = None \<and> \<not> chunk_done c"
    using assms(3) by (simp add: is_stream_chunk_def)
  have frags: "join (map chunk_fragment cs) = Inr (concat (map chunk_text cs))"
    using assms(3) by (simp add: join_fragments)
  have loop: "snd (for_lines env (ls @ l # rest) []) =
      snd (for_lines env (l # rest) ([] @ map chunk_fragment cs))"
    by (simp add: for_lines_continue [OF assms(2) pre] del: for_lines.simps)
  show ?thesis
  proof (intro conjI allI impI)
    fix msg parts
    assume "chunk_error c = Some msg"
    then show "loop_body c parts = Inl (Exception msg)"
      by (simp add: loop_body_object [OF assms(5)])
  next
    fix msg
    assume "chunk_error c = Some msg"
    then have "snd (for_lines env (ls @ l # rest) []) = Inl (Exception msg)"
      unfolding loop by (simp add: for_lines_step [OF assms(4) assms(5)] del: for_lines.simps)
    then show "snd (get_completion_ollama env prompt model url) = Inl (Exception msg)"
      by (simp add: get_completion_ollama_served [OF assms(1)])
  next
    fix parts
    assume "chunk_error c = None"
    then show "loop_body c parts = Inr (parts @ [chunk_fragment c], True)"
      using assms(6) by (simp add: loop_body_object [OF assms(5)])
  next
    assume e: "chunk_error c = None" and f: "chunk_fragment c = JStr (chunk_text c)"
    have "snd (for_lines env (ls @ l # rest) []) =
        Inr (map chunk_fragment cs @ [chunk_fragment c])"
      unfolding loop using e assms(6)
      by (simp add: for_lines_step [OF assms(4) assms(5)] del: for_lines.simps)
    moreover have "join (map chunk_fragment cs @ [chunk_fragment c]) =
        Inr (concat (map chunk_text cs) @ chunk_text c)"
      unfolding join_append frags by (simp add: f)
    ultimately show "snd (get_completion_ollama env prompt model url) =
        Inr (Str (strip (concat (map chunk_text cs) @ chunk_text c)))"
      by (simp add: get_completion_ollama_served [OF assms(1)])
  qed
qed

text \<open>
  Two instances after the chunk \<^verbatim>\<open>Hel\<close>: a chunk with an error, a fragment and a true
  \<^verbatim>\<open>done\<close>, and a final chunk with the fragment \<^verbatim>\<open>" there "\<close>.
\<close>

theorem chunk_processing_order_witness:
  \<open>snd (get_completion_ollama
          (sample_env NoneVal 200
             [''{"response":"Hel","done":false}'',
              ''{"error":"overloaded","response":"lo","done":true}''])
          (prompt_of sample_comment) OLLAMA_MODEL ollama_url) =
     Inl (Exception (JStr (lit ''overloaded''))) \<and>
   snd (get_completion_ollama
          (sample_env NoneVal 200
             [''{"response":"Hel","done":false}'', ''{"response":" there ","done":true}''])
          (prompt_of sample_comment) OLLAMA_MODEL ollama_url) =
     Inr (Str (lit ''Hel there''))\<close>
proof -
  let ?l1 = \<open>''{"response":"Hel","done":false}''\<close>
  let ?l2 = \<open>''{"error":"overloaded","response":"lo","done":true}''\<close>
  let ?l3 = \<open>''{"response":" there ","done":true}''\<close>
  let ?c1 = "JObj [(lit ''response'', JStr (lit ''Hel'')), (lit ''done'', JBool False)]"
  let ?c2 = "JObj [(lit ''error'', JStr (lit ''overloaded'')),
                   (lit ''response'', JStr (lit ''lo'')), (lit ''done'', JBool True)]"
  let ?c3 = "JObj [(lit ''response'', JStr (lit '' there '')), (lit ''done'', JBool True)]"
  let ?E = "sample_env NoneVal 200 [?l1, ?l2]"
  let ?F = "sample_env NoneVal 200 [?l1, ?l3]"
  have sE: "served ?E (prompt_of sample_comment) OLLAMA_MODEL ollama_url ([?l1] @ ?l2 # [])"
    using sample_served [of NoneVal "[?l1, ?l2]"] by simp
  have sF: "served ?F (prompt_of sample_comment) OLLAMA_MODEL ollama_url ([?l1] @ ?l3 # [])"
    using sample_served [of NoneVal "[?l1, ?l3]"] by simp
  have dE: "decoded ?E [?l1] [?c1]" and dF: "decoded ?F [?l1] [?c1]"
    by (simp_all add: decoded_def sample_loads_Hel)
  have t1: "chunk_text ?c1 = lit ''Hel''"
    by (simp add: chunk_text_def chunk_fragment_def)
  have p: "\<forall>c\<in>set [?c1]. is_stream_chunk c \<and> chunk_error c = None \<and> \<not> chunk_done c"
    using chunk_keys_distinct
    by (simp add: is_stream_chunk_def is_object_def chunk_error_def chunk_done_def
        chunk_text_def chunk_fragment_def)
  have l2: "loads ?E (Bytes ?l2) = Inr ?c2" and l3: "loads ?F (Bytes ?l3) = Inr ?c3"
    by (simp_all add: sample_loads_overloaded sample_loads_there)
  have c2: "is_object ?c2" "chunk_done ?c2" "chunk_error ?c2 = Some (JStr (lit ''overloaded''))"
    using chunk_keys_distinct by (simp_all add: is_object_def chunk_done_def chunk_error_def)
  have c3: "is_object ?c3" "chunk_done ?c3" "chunk_error ?c3 = None"
    "chunk_fragment ?c3 = JStr (chunk_text ?c3)" "chunk_text ?c3 = lit '' there ''"
    using chunk_keys_distinct
    by (simp_all add: is_object_def chunk_done_def chunk_error_def chunk_text_def
        chunk_fragment_def)
  from chunk_processing_order [OF sE dE p l2 c2(1) c2(2)] c2(3)
  have a: "snd (get_completion_ollama ?E (prompt_of sample_comment) OLLAMA_MODEL ollama_url) =
      Inl (Exception (JStr (lit ''overloaded'')))"
    by blast
  from chunk_processing_order [OF sF dF p l3 c3(1) c3(2)] c3(3) c3(4)
  have "snd (get_completion_ollama ?F (prompt_of sample_comment) OLLAMA_MODEL ollama_url) =
      Inr (Str (strip (concat (map chunk_text [?c1]) @ chunk_text ?c3)))"
    by blast
  then have b: "snd (get_completion_ollama ?F (prompt_of sample_comment) OLLAMA_MODEL ollama_url) =
      Inr (Str (lit ''Hel there''))"
    by (simp add: t1 c3(5) strip_Hel_there)
  from a b show ?thesis
    by simp
qed

section \<open>The orchestrator\<close>

lemma nllb_translate_events:
  "\<exists>ts. fst (nllb_translate_tr_to_eng env article) = Tokenizer article # ts \<and>
        (\<forall>ev\<in>set ts. component_of ev = Translator)"
  by (auto simp: nllb_translate_tr_to_eng_def call_io_def bind_io_def raise_io_def return_io_def
      split: sum.splits option.splits list.splits prod.splits)

lemma completion_then_parse_events:
  assumes "fst m = ev # ds" and "\<forall>x\<in>set ds. component_of x = Decoder"
  shows "\<exists>ds'. fst (bind_io m (parse env)) = ev # ds' \<and>
           (\<forall>x\<in>set ds'. component_of x = Decoder)"
  using assms by (cases m; cases "snd m") (auto simp: parse_eq)

lemma sample_translation:
  "nllb_translate_tr_to_eng (sample_env reply status ls) article =
     ([Tokenizer article, Generate [[256047, 2]] 256047 30, BatchDecode [[2, 256047, 2]]],
      Inr (lit ''This product is very bad''))"
  by (simp add: nllb_translate_tr_to_eng_def return_io_def)

lemma lit_append: "lit (xs @ ys) = lit xs @ lit ys"
  by (simp add: lit_def)

lemma prompt_of_embeds:
  "\<exists>pre suf. \<forall>x. prompt_of x = pre @ lit ''<'' @ x @ lit ''>'' @ suf"
proof -
  have s: "''\<newline>    Your task is to perform the following actions based on the social media comment, delimited by <>:\<newline>    \<newline>    1 - Generate the sentiment analysis for the comment,         assign a score from 1 to 5, where:\<newline>        1 = Very Negative\<newline>        2 = Negative\<newline>        3 = Neutral\<newline>        4 = Positive\<newline>        5 = Very Positive\<newline>    2 - Generate the offensive language detection for the comment,         assign a score from 1 to 5, where:\<newline>        1 = Not Offensive\<newline>        2 = Slightly Offensive\<newline>        3 = Moderately Offensive\<newline>        4 = Offensive\<newline>        5 = Highly Offensive\<newline>    \<newline>    Format your response as a JSON object with the keys     'sentiment_score' and 'offensive_score'. \<newline>\<newline>    Comment: <'' =
      ''\<newline>    Your task is to perform the following actions based on the social media comment, delimited by <>:\<newline>    \<newline>    1 - Generate the sentiment analysis for the comment,         assign a score from 1 to 5, where:\<newline>        1 = Very Negative\<newline>        2 = Negative\<newline>        3 = Neutral\<newline>        4 = Positive\<newline>        5 = Very Positive\<newline>    2 - Generate the offensive language detection for the comment,         assign a score from 1 to 5, where:\<newline>        1 = Not Offensive\<newline>        2 = Slightly Offensive\<newline>        3 = Moderately Offensive\<newline>        4 = Offensive\<newline>        5 = Highly Offensive\<newline>    \<newline>    Format your response as a JSON object with the keys     'sentiment_score' and 'offensive_score'. \<newline>\<newline>    Comment: '' @
      ''<''"
    by simp
  have a: "lit ''\<newline>    Your task is to perform the following actions based on the social media comment, delimited by <>:\<newline>    \<newline>    1 - Generate the sentiment analysis for the comment,         assign a score from 1 to 5, where:\<newline>        1 = Very Negative\<newline>        2 = Negative\<newline>        3 = Neutral\<newline>        4 = Positive\<newline>        5 = Very Positive\<newline>    2 - Generate the offensive language detection for the comment,         assign a score from 1 to 5, where:\<newline>        1 = Not Offensive\<newline>        2 = Slightly Offensive\<newline>        3 = Moderately Offensive\<newline>        4 = Offensive\<newline>        5 = Highly Offensive\<newline>    \<newline>    Format your response as a JSON object with the keys     'sentiment_score' and 'offensive_score'. \<newline>\<newline>    Comment: <'' =
      lit ''\<newline>    Your task is to perform the following actions based on the social media comment, delimited by <>:\<newline>    \<newline>    1 - Generate the sentiment analysis for the comment,         assign a score from 1 to 5, where:\<newline>        1 = Very Negative\<newline>        2 = Negative\<newline>        3 = Neutral\<newline>        4 = Positive\<newline>        5 = Very Positive\<newline>    2 - Generate the offensive language detection for the comment,         assign a score from 1 to 5, where:\<newline>        1 = Not Offensive\<newline>        2 = Slightly Offensive\<newline>        3 = Moderately Offensive\<newline>        4 = Offensive\<newline>        5 = Highly Offensive\<newline>    \<newline>    Format your response as a JSON object with the keys     'sentiment_score' and 'offensive_score'. \<newline>\<newline>    Comment: '' @
      lit ''<''"
    by (rule trans [OF arg_cong [OF s, of lit] lit_append])
  have b: "lit ''>\<newline>    '' = lit ''>'' @ lit ''\<newline>    ''"
    by (rule trans [OF arg_cong [of _ _ lit] lit_append]) simp
  have "\<forall>x. prompt_of x =
      lit ''\<newline>    Your task is to perform the following actions based on the social media comment, delimited by <>:\<newline>    \<newline>    1 - Generate the sentiment analysis for the comment,         assign a score from 1 to 5, where:\<newline>        1 = Very Negative\<newline>        2 = Negative\<newline>        3 = Neutral\<newline>        4 = Positive\<newline>        5 = Very Positive\<newline>    2 - Generate the offensive language detection for the comment,         assign a score from 1 to 5, where:\<newline>        1 = Not Offensive\<newline>        2 = Slightly Offensive\<newline>        3 = Moderately Offensive\<newline>        4 = Offensive\<newline>        5 = Highly Offensive\<newline>    \<newline>    Format your response as a JSON object with the keys     'sentiment_score' and 'offensive_score'. \<newline>\<newline>    Comment: '' @
      lit ''<'' @ x @ lit ''>'' @ lit ''\<newline>    ''"
    unfolding prompt_of_def a b by (simp only: append_assoc simp_thms)
  then show ?thesis
    by (intro exI)
qed

lemma ollama_data_prompt:
  "\<exists>body. ollama_data prompt model = JObj body \<and>
          map_of body (lit ''prompt'') = Some (JStr prompt)"
  by (simp add: ollama_data_def)

lemma openai_kwargs_messages:
  "map_of (openai_kwargs prompt model temperature) ''messages'' =
     Some (JArr [JObj [(lit ''role'', JStr (lit ''user'')), (lit ''content'', JStr prompt)]])"
  by (simp add: openai_kwargs_def)

lemma analyzer_events:
  "(\<exists>ds. fst (sentiment_analyzer env input False) =
           Create (openai_kwargs (prompt_of input) OPENAI_MODEL 0) # ds \<and>
         (\<forall>ev\<in>set ds. component_of ev = Decoder)) \<and>
   (\<exists>ts bs. fst (sentiment_analyzer env input True) = Tokenizer input # ts @ bs \<and>
         (\<forall>ev\<in>set ts. component_of ev = Translator) \<and>
         (case snd (nllb_translate_tr_to_eng env input) of
            Inl e \<Rightarrow> bs = []
          | Inr translated \<Rightarrow>
              (\<exists>ds. bs = Post ollama_url
                            [(''json'', ollama_data (prompt_of translated) OLLAMA_MODEL)] # ds \<and>
                    (\<forall>ev\<in>set ds. component_of ev = Decoder))))"
proof
  have "fst (get_completion_openai env (prompt_of input) OPENAI_MODEL 0) =
      Create (openai_kwargs (prompt_of input) OPENAI_MODEL 0) # []"
    by (simp add: get_completion_openai_eq)
  then show "\<exists>ds. fst (sentiment_analyzer env input False) =
           Create (openai_kwargs (prompt_of input) OPENAI_MODEL 0) # ds \<and>
         (\<forall>ev\<in>set ds. component_of ev = Decoder)"
    unfolding sentiment_analyzer_remote by (rule completion_then_parse_events) simp
next
  obtain ts where ts: "fst (nllb_translate_tr_to_eng env input) = Tokenizer input # ts"
    and tr: "\<forall>ev\<in>set ts. component_of ev = Translator"
    using nllb_translate_events by blast
  show "\<exists>ts bs. fst (sentiment_analyzer env input True) = Tokenizer input # ts @ bs \<and>
         (\<forall>ev\<in>set ts. component_of ev = Translator) \<and>
         (case snd (nllb_translate_tr_to_eng env input) of
            Inl e \<Rightarrow> bs = []
          | Inr translated \<Rightarrow>
              (\<exists>ds. bs = Post ollama_url
                            [(''json'', ollama_data (prompt_of translated) OLLAMA_MODEL)] # ds \<and>
                    (\<forall>ev\<in>set ds. component_of ev = Decoder)))"
  proof (cases "snd (nllb_translate_tr_to_eng env input)")
    case (Inl e)
    then have "fst (sentiment_analyzer env input True) = Tokenizer input # ts @ []"
      by (simp add: sentiment_analyzer_local fst_bind_io ts)
    with tr Inl show ?thesis
      by (intro exI [of _ ts] exI [of _ "[]"]) simp
  next
    case (Inr translated)
    let ?m = "get_completion_ollama env (prompt_of translated) OLLAMA_MODEL ollama_url"
    obtain ds where "fst ?m =
        Post ollama_url [(''json'', ollama_data (prompt_of translated) OLLAMA_MODEL)] # ds"
      and "\<forall>ev\<in>set ds. component_of ev = Decoder"
      using get_completion_ollama_events by blast
    then obtain ds' where ds': "fst (bind_io ?m (parse env)) =
        Post ollama_url [(''json'', ollama_data (prompt_of translated) OLLAMA_MODEL)] # ds'"
      and dec: "\<forall>ev\<in>set ds'. component_of ev = Decoder"
      using completion_then_parse_events by blast
    have "fst (sentiment_analyzer env input True) =
        Tokenizer input # ts @
          Post ollama_url [(''json'', ollama_data (prompt_of translated) OLLAMA_MODEL)] # ds'"
      by (simp add: sentiment_analyzer_local
          fst_bind_io [of "nllb_translate_tr_to_eng env input"] ts Inr ds')
    with tr dec Inr show ?thesis
      by (intro exI [of _ ts]
          exI [of _ "Post ollama_url
            [(''json'', ollama_data (prompt_of translated) OLLAMA_MODEL)] # ds'"]) simp
  qed
qed

text \<open>
  Claim C6. With \<^verbatim>\<open>is_local\<close> false the first call of \<^verbatim>\<open>sentiment_analyzer\<close> is the
  chat completion request for the prompt built from the original input, and every later
  call is a call of the JSON decoder: neither the translator nor the local daemon is
  called. With \<^verbatim>\<open>is_local\<close> true the first call is the tokenizer on the input, followed
  by calls of the translator only; when the translator fails nothing follows, and when it
  returns a text the next call is the HTTP request for the prompt built from that text,
  and every call after it is a call of the JSON decoder: the remote API is not called.
  The prompt built from a text is a fixed text that holds the given one, as it is,
  between \<^verbatim>\<open><\<close> and \<^verbatim>\<open>>\<close>; the chat completion request carries the prompt as the
  content of its only message, in the role \<^verbatim>\<open>user\<close>, and the body of the HTTP request
  carries it under the key \<^verbatim>\<open>prompt\<close>.
\<close>

theorem analyzer_dispatch:
  "(\<exists>ds. fst (sentiment_analyzer env input False) =
           Create (openai_kwargs (prompt_of input) OPENAI_MODEL 0) # ds \<and>
         (\<forall>ev\<in>set ds. component_of ev = Decoder)) \<and>
   (\<exists>ts bs. fst (sentiment_analyzer env input True) = Tokenizer input # ts @ bs \<and>
         (\<forall>ev\<in>set ts. component_of ev = Translator) \<and>
         (case snd (nllb_translate_tr_to_eng env input) of
            Inl e \<Rightarrow> bs = []
          | Inr translated \<Rightarrow>
              (\<exists>ds. bs = Post ollama_url
                            [(''json'', ollama_data (prompt_of translated) OLLAMA_MODEL)] # ds \<and>
                    (\<forall>ev\<in>set ds. component_of ev = Decoder)))) \<and>
   (\<exists>pre suf. \<forall>x. prompt_of x = pre @ lit ''<'' @ x @ lit ''>'' @ suf) \<and>
   map_of (openai_kwargs (prompt_of input) OPENAI_MODEL 0) ''messages'' =
     Some (JArr [JObj [(lit ''role'', JStr (lit ''user'')),
                       (lit ''content'', JStr (prompt_of input))]]) \<and>
   (\<forall>translated. \<exists>body.
      ollama_data (prompt_of translated) OLLAMA_MODEL = JObj body \<and>
      map_of body (lit ''prompt'') = Some (JStr (prompt_of translated)))"
  using analyzer_events [of env input] prompt_of_embeds
    openai_kwargs_messages [of "prompt_of input" OPENAI_MODEL 0]
    ollama_data_prompt [of _ OLLAMA_MODEL]
  by (intro conjI allI) blast+

text \<open>
  An instance: in the sample environment the translator returns an English text, and the
  request to the local daemon carries, under the key \<^verbatim>\<open>prompt\<close>, the prompt built from
  that text.
\<close>

theorem analyzer_dispatch_witness:
  "snd (nllb_translate_tr_to_eng (sample_env NoneVal 200 []) sample_comment) =
     Inr (lit ''This product is very bad'') \<and>
   (\<exists>ts ds. fst (sentiment_analyzer (sample_env NoneVal 200 []) sample_comment True) =
        Tokenizer sample_comment # ts @
          Post ollama_url
            [(''json'', ollama_data (prompt_of (lit ''This product is very bad'')) OLLAMA_MODEL)]
          # ds \<and>
      (\<forall>ev\<in>set ts. component_of ev = Translator) \<and>
      (\<forall>ev\<in>set ds. component_of ev = Decoder)) \<and>
   (\<exists>ds. fst (sentiment_analyzer (sample_env NoneVal 200 []) sample_comment False) =
        Create (openai_kwargs (prompt_of sample_comment) OPENAI_MODEL 0) # ds \<and>
      (\<forall>ev\<in>set ds. component_of ev = Decoder)) \<and>
   (\<exists>body. ollama_data (prompt_of (lit ''This product is very bad'')) OLLAMA_MODEL = JObj body \<and>
      map_of body (lit ''prompt'') = Some (JStr (prompt_of (lit ''This product is very bad'')))) \<and>
   (\<exists>pre suf. prompt_of (lit ''This product is very bad'') =
      pre @ lit ''<'' @ lit ''This product is very bad'' @ lit ''>'' @ suf)"
proof -
  let ?E = "sample_env NoneVal 200 []"
  let ?t = "lit ''This product is very bad''"
  note d = analyzer_dispatch [of ?E sample_comment]
  have t: "snd (nllb_translate_tr_to_eng ?E sample_comment) = Inr ?t"
    by (simp add: sample_translation)
  from d obtain ts bs
    where tr: "fst (sentiment_analyzer ?E sample_comment True) = Tokenizer sample_comment # ts @ bs"
      "\<forall>ev\<in>set ts. component_of ev = Translator"
      and bs: "case snd (nllb_translate_tr_to_eng ?E sample_comment) of
            Inl e \<Rightarrow> bs = []
          | Inr translated \<Rightarrow>
              (\<exists>ds. bs = Post ollama_url
                            [(''json'', ollama_data (prompt_of translated) OLLAMA_MODEL)] # ds \<and>
                    (\<forall>ev\<in>set ds. component_of ev = Decoder))"
    by blast
  from bs t obtain ds where "bs = Post ollama_url [(''json'', ollama_data (prompt_of ?t) OLLAMA_MODEL)] # ds"
    "\<forall>ev\<in>set ds. component_of ev = Decoder"
    by auto
  with tr have 1: "\<exists>ts ds. fst (sentiment_analyzer ?E sample_comment True) =
        Tokenizer sample_comment # ts @
          Post ollama_url [(''json'', ollama_data (prompt_of ?t) OLLAMA_MODEL)] # ds \<and>
      (\<forall>ev\<in>set ts. component_of ev = Translator) \<and>
      (\<forall>ev\<in>set ds. component_of ev = Decoder)"
    by blast
  from d have 2: "\<exists>ds. fst (sentiment_analyzer ?E sample_comment False) =
        Create (openai_kwargs (prompt_of sample_comment) OPENAI_MODEL 0) # ds \<and>
      (\<forall>ev\<in>set ds. component_of ev = Decoder)"
    by blast
  from d have 3: "\<exists>body. ollama_data (prompt_of ?t) OLLAMA_MODEL = JObj body \<and>
      map_of body (lit ''prompt'') = Some (JStr (prompt_of ?t))"
    by blast
  from d have 4: "\<exists>pre suf. prompt_of ?t = pre @ lit ''<'' @ ?t @ lit ''>'' @ suf"
    by blast
  from t 1 2 3 4 show ?thesis
    by blast
qed

text \<open>
  Claim C7. When the translator raises, \<^verbatim>\<open>sentiment_analyzer\<close> raises the same
  exception and has made the calls of the translator only. When the adapter that was
  selected raises, \<^verbatim>\<open>sentiment_analyzer\<close> raises the same exception and has made the
  calls of the steps so far only: there is no second attempt and no call of the other
  backend, and \<open>-1\<close> is not returned. The parse step never raises, so that an exception
  raised by \<^verbatim>\<open>sentiment_analyzer\<close> is always one raised by the translator or by the
  selected adapter.
\<close>

theorem analyzer_failures_propagate:
  "(\<forall>tr e. nllb_translate_tr_to_eng env input = (tr, Inl e)
      \<longrightarrow> sentiment_analyzer env input True = (tr, Inl e)) \<and>
   (\<forall>tr translated tr' e.
      nllb_translate_tr_to_eng env input = (tr, Inr translated) \<and>
      get_completion_ollama env (prompt_of translated) OLLAMA_MODEL ollama_url = (tr', Inl e)
      \<longrightarrow> sentiment_analyzer env input True = (tr @ tr', Inl e)) \<and>
   (\<forall>tr e. get_completion_openai env (prompt_of input) OPENAI_MODEL 0 = (tr, Inl e)
      \<longrightarrow> sentiment_analyzer env input False = (tr, Inl e)) \<and>
   (\<forall>reply. \<exists>r. snd (parse env reply) = Inr r) \<and>
   (\<forall>e. snd (sentiment_analyzer env input is_local) = Inl e \<longrightarrow>
      (if is_local then
         snd (nllb_translate_tr_to_eng env input) = Inl e \<or>
         (\<exists>translated. snd (nllb_translate_tr_to_eng env input) = Inr translated \<and>
            snd (get_completion_ollama env (prompt_of translated) OLLAMA_MODEL ollama_url) = Inl e)
       else snd (get_completion_openai env (prompt_of input) OPENAI_MODEL 0) = Inl e))"
proof (intro conjI allI impI)
  fix tr e
  assume "nllb_translate_tr_to_eng env input = (tr, Inl e)"
  then show "sentiment_analyzer env input True = (tr, Inl e)"
    by (simp add: sentiment_analyzer_local)
next
  fix tr translated tr' e
  assume "nllb_translate_tr_to_eng env input = (tr, Inr translated) \<and>
    get_completion_ollama env (prompt_of translated) OLLAMA_MODEL ollama_url = (tr', Inl e)"
  then show "sentiment_analyzer env input True = (tr @ tr', Inl e)"
    by (simp add: sentiment_analyzer_local)
next
  fix tr e
  assume "get_completion_openai env (prompt_of input) OPENAI_MODEL 0 = (tr, Inl e)"
  then show "sentiment_analyzer env input False = (tr, Inl e)"
    by (simp add: sentiment_analyzer_remote)
next
  fix reply
  show "\<exists>r. snd (parse env reply) = Inr r"
    by (simp add: parse_eq)
next
  fix e
  assume e: "snd (sentiment_analyzer env input is_local) = Inl e"
  show "if is_local then
         snd (nllb_translate_tr_to_eng env input) = Inl e \<or>
         (\<exists>translated. snd (nllb_translate_tr_to_eng env input) = Inr translated \<and>
            snd (get_completion_ollama env (prompt_of translated) OLLAMA_MODEL ollama_url) = Inl e)
       else snd (get_completion_openai env (prompt_of input) OPENAI_MODEL 0) = Inl e"
  proof (cases is_local)
    case True
    with e show ?thesis
      by (auto simp: sentiment_analyzer_local snd_bind_io parse_eq split: sum.splits)
  next
    case False
    with e show ?thesis
      by (auto simp: sentiment_analyzer_remote snd_bind_io parse_eq split: sum.splits)
  qed
qed

text \<open>
  Instances: a tokenizer that fails, a local daemon that answers with status 500, a
  remote API that refuses the credentials.
\<close>

theorem analyzer_failures_propagate_witness:
  "sentiment_analyzer ((sample_env NoneVal 200 [])\<lparr>tokenizer := \<lambda>a. Inl (OtherError 1)\<rparr>)
      sample_comment True =
     ([Tokenizer sample_comment], Inl (OtherError 1)) \<and>
   sentiment_analyzer (sample_env NoneVal 500 []) sample_comment True =
     ([Tokenizer sample_comment, Generate [[256047, 2]] 256047 30, BatchDecode [[2, 256047, 2]],
       Post ollama_url
         [(''json'', ollama_data (prompt_of (lit ''This product is very bad'')) OLLAMA_MODEL)]],
      Inl (HTTPError 500)) \<and>
   sentiment_analyzer ((sample_env NoneVal 200 [])\<lparr>create := \<lambda>kw. Inl (OtherError 401)\<rparr>)
      sample_comment False =
     ([Create (openai_kwargs (prompt_of sample_comment) OPENAI_MODEL 0)], Inl (OtherError 401))"
proof -
  let ?A = "(sample_env NoneVal 200 [])\<lparr>tokenizer := \<lambda>a. Inl (OtherError 1)\<rparr>"
  let ?B = "sample_env NoneVal 500 []"
  let ?C = "(sample_env NoneVal 200 [])\<lparr>create := \<lambda>kw. Inl (OtherError 401)\<rparr>"
  let ?p = "prompt_of (lit ''This product is very bad'')"
  have a: "nllb_translate_tr_to_eng ?A sample_comment =
      ([Tokenizer sample_comment], Inl (OtherError 1))"
    by (simp add: nllb_translate_tr_to_eng_def)
  have b1: "nllb_translate_tr_to_eng ?B sample_comment =
      ([Tokenizer sample_comment, Generate [[256047, 2]] 256047 30, BatchDecode [[2, 256047, 2]]],
       Inr (lit ''This product is very bad''))"
    by (rule sample_translation)
  have b2: "get_completion_ollama ?B ?p OLLAMA_MODEL ollama_url =
      ([Post ollama_url [(''json'', ollama_data ?p OLLAMA_MODEL)]], Inl (HTTPError 500))"
    by (simp add: get_completion_ollama_eq raise_for_status_def)
  have c: "get_completion_openai ?C (prompt_of sample_comment) OPENAI_MODEL 0 =
      ([Create (openai_kwargs (prompt_of sample_comment) OPENAI_MODEL 0)], Inl (OtherError 401))"
    by (simp add: get_completion_openai_eq)
  from analyzer_failures_propagate [of ?A sample_comment] a
  have 1: "sentiment_analyzer ?A sample_comment True =
      ([Tokenizer sample_comment], Inl (OtherError 1))"
    by blast
  from analyzer_failures_propagate [of ?B sample_comment] b1 b2
  have 2: "sentiment_analyzer ?B sample_comment True =
      ([Tokenizer sample_comment, Generate [[256047, 2]] 256047 30,
        BatchDecode [[2, 256047, 2]]] @
       [Post ollama_url [(''json'', ollama_data ?p OLLAMA_MODEL)]], Inl (HTTPError 500))"
    by blast
  from analyzer_failures_propagate [of ?C sample_comment] c
  have 3: "sentiment_analyzer ?C sample_comment False =
      ([Create (openai_kwargs (prompt_of sample_comment) OPENAI_MODEL 0)], Inl (OtherError 401))"
    by blast
  from 1 2 3 show ?thesis
    by simp
qed

end
